theory Spec2Isabelle
  imports Main "HOL-Library.Multiset" "HOL-Library.Char_ord" "HOL-Library.List_Lexorder"
    "HOL-Library.Product_Lexorder"
begin

section \<open>Data model of the foreach mutation handler\<close>

text \<open>
  The development follows \<^verbatim>\<open>pkg/engine/handlers/mutation/common.go\<close>. Go errors are
  represented by their text; a nil error is \<open>None\<close>.
\<close>

type_synonym error = string

text \<open>Untyped JSON documents (Go's \<^verbatim>\<open>interface{}\<close> values); \<open>JNull\<close> is Go's nil.\<close>

datatype json =
    JNull
  | JBool bool
  | JNumber int
  | JString string
  | JArray "json list"
  | JObject "(string \<times> json) list"

text \<open>
  \<^verbatim>\<open>unstructured.Unstructured\<close> of k8s.io/apimachinery: a struct with the one field
  \<^verbatim>\<open>Object map[string]interface{}\<close>, which may be nil.
\<close>

record Unstructured =
  Object :: "(string \<times> json) list option"

definition emptyUnstructured :: Unstructured where
  "emptyUnstructured = \<lparr>Object = None\<rparr>"

fun NestedFieldNoCopy :: "(string \<times> json) list \<Rightarrow> string list \<Rightarrow> json option" where
  "NestedFieldNoCopy obj [] = Some (JObject obj)"
| "NestedFieldNoCopy obj (f # fs) =
     (case map_of obj f of
        None \<Rightarrow> None
      | Some v \<Rightarrow>
          (if fs = [] then Some v
           else (case v of JObject m \<Rightarrow> NestedFieldNoCopy m fs | _ \<Rightarrow> None)))"

definition getNestedString :: "(string \<times> json) list option \<Rightarrow> string list \<Rightarrow> string" where
  "getNestedString obj names =
     (case obj of
        None \<Rightarrow> ''''
      | Some m \<Rightarrow> (case NestedFieldNoCopy m names of Some (JString s) \<Rightarrow> s | _ \<Rightarrow> ''''))"

definition GetKind :: "Unstructured \<Rightarrow> string" where
  "GetKind r = getNestedString (Object r) [''kind'']"

definition GetName :: "Unstructured \<Rightarrow> string" where
  "GetName r = getNestedString (Object r) [''metadata'', ''name'']"

definition GetNamespace :: "Unstructured \<Rightarrow> string" where
  "GetNamespace r = getNestedString (Object r) [''metadata'', ''namespace'']"

text \<open>
  Modelled from the spec: the status type \<^verbatim>\<open>engineapi.RuleStatus\<close> is declared outside
  the sources at hand; the spec's MutationOutcome has a status among Pass, Skip, Fail
  and Error.
\<close>

datatype RuleStatus = RuleStatusPass | RuleStatusFail | RuleStatusError | RuleStatusSkip

text \<open>
  \<^verbatim>\<open>mutate.Response\<close>, with the four fields the handler reads. Raw patches
  (\<^verbatim>\<open>[][]byte\<close>) are lists of byte strings.
\<close>

record Response =
  Status :: RuleStatus
  PatchedResource :: Unstructured
  Patches :: "string list"
  Message :: string

text \<open>
  Modelled from the spec: the constructors \<^verbatim>\<open>mutate.NewResponse\<close> and
  \<^verbatim>\<open>mutate.NewErrorResponse\<close> are declared outside the sources at hand.
  \<open>NewResponse\<close> stores its four arguments. \<open>NewErrorResponse\<close> takes a message and
  a cause only, so its outcome has status Error, the empty resource and no patches; the
  spec has it carry "a descriptive message and the underlying cause", which is rendered
  here as the message followed by the text of the cause when there is one.
\<close>

definition NewResponse :: "RuleStatus \<Rightarrow> Unstructured \<Rightarrow> string list \<Rightarrow> string \<Rightarrow> Response" where
  "NewResponse status resource patches msg =
     \<lparr>Status = status, PatchedResource = resource, Patches = patches, Message = msg\<rparr>"

definition NewErrorResponse :: "string \<Rightarrow> error option \<Rightarrow> Response" where
  "NewErrorResponse msg err =
     NewResponse RuleStatusError emptyUnstructured []
       (case err of None \<Rightarrow> msg | Some e \<Rightarrow> msg @ '': '' @ e)"

text \<open>
  \<^verbatim>\<open>kyvernov1.ForEachMutation\<close>, with the fields the handler reads. The nested foreach
  is kept as raw JSON in the source and decoded by \<^verbatim>\<open>api.DeserializeJSONArray\<close> while
  the rule runs; a raw document is represented by what decoding it yields: an error, or
  the array of nested declarations.
\<close>

datatype ForEachMutation =
  ForEachMutation
    (List: string)
    (Context: "json list")
    (AnyAllConditions: json)
    (RawPatchStrategicMerge: "json option")
    (ForEachMutationRaw: "RawForEach option")
and RawForEach =
    Malformed error
  | ForEachArray "ForEachMutation list"

fun DeserializeJSONArray :: "RawForEach \<Rightarrow> error + ForEachMutation list" where
  "DeserializeJSONArray (Malformed err) = Inl err"
| "DeserializeJSONArray (ForEachArray specs) = Inr specs"

record Rule =
  Name :: string
  Targets :: "json list"

record GroupVersionResource =
  Group :: string
  Version :: string
  Resource :: string

record resourceInfo =
  unstructured :: Unstructured
  subresource :: string
  parentResourceGVR :: GroupVersionResource

text \<open>
  \<^verbatim>\<open>jsonpatch.JsonPatchOperation\<close> of github.com/mattbaird/jsonpatch: the operation, the
  JSON pointer it applies to and the value, kept as its JSON text.
\<close>

record JsonPatchOperation =
  Operation :: string
  Path :: string
  Value :: string


section \<open>The context store and the logger\<close>

text \<open>
  Modelled from the spec: the JSON context store (\<^verbatim>\<open>JSONContext()\<close> of the policy
  context) is declared outside the sources at hand. The spec describes it as a
  stack-like variable store: a checkpoint saves the current bindings, restore reverts to
  the last checkpoint and removes it, reset reverts to the last checkpoint and keeps it.
  Without a checkpoint, restore and reset leave the store as it is. The bindings
  themselves are of an arbitrary type \<open>'c\<close>.
\<close>

record 'c JSONContext =
  jsonRaw :: 'c
  jsonRawCheckpoints :: "'c list"

definition Checkpoint :: "'c JSONContext \<Rightarrow> 'c JSONContext" where
  "Checkpoint c = c\<lparr>jsonRawCheckpoints := jsonRaw c # jsonRawCheckpoints c\<rparr>"

definition Restore :: "'c JSONContext \<Rightarrow> 'c JSONContext" where
  "Restore c =
     (case jsonRawCheckpoints c of
        [] \<Rightarrow> c
      | saved # older \<Rightarrow> c\<lparr>jsonRaw := saved, jsonRawCheckpoints := older\<rparr>)"

definition Reset :: "'c JSONContext \<Rightarrow> 'c JSONContext" where
  "Reset c =
     (case jsonRawCheckpoints c of
        [] \<Rightarrow> c
      | saved # older \<Rightarrow> c\<lparr>jsonRaw := saved\<rparr>)"

text \<open>The lines written through \<^verbatim>\<open>f.logger\<close> (a \<^verbatim>\<open>logr.Logger\<close>), oldest first.\<close>

datatype LogValue = LogInt nat | LogResource Unstructured

datatype LogEntry =
    LogInfo string "(string \<times> LogValue) list"
  | LogError error string

text \<open>
  What a rule evaluation mutates besides the mutator's own fields: the JSON context of
  \<^verbatim>\<open>f.policyContext\<close> and the log.
\<close>

record 'c world =
  jsonContext :: "'c JSONContext"
  logger :: "LogEntry list"

definition logInfo :: "string \<Rightarrow> (string \<times> LogValue) list \<Rightarrow> 'c world \<Rightarrow> 'c world" where
  "logInfo msg kvs w = w\<lparr>logger := logger w @ [LogInfo msg kvs]\<rparr>"

definition logError :: "error \<Rightarrow> string \<Rightarrow> 'c world \<Rightarrow> 'c world" where
  "logError err msg w = w\<lparr>logger := logger w @ [LogError err msg]\<rparr>"

definition setBindings :: "'c \<Rightarrow> 'c world \<Rightarrow> 'c world" where
  "setBindings c w = w\<lparr>jsonContext := (jsonContext w)\<lparr>jsonRaw := c\<rparr>\<rparr>"

section \<open>The external collaborators\<close>

text \<open>
  The handler calls into code that is not part of the file: the list evaluator
  (\<^verbatim>\<open>engineutils.EvaluateList\<close>), \<^verbatim>\<open>engineutils.AddElementToContext\<close>, the context
  loader, the precondition evaluator (\<^verbatim>\<open>internal.CheckPreconditions\<close>), the
  single-element mutator (\<^verbatim>\<open>mutate.ForEach\<close>), \<^verbatim>\<open>AddResource\<close> of the context store,
  \<^verbatim>\<open>json.Unmarshal\<close> and \<^verbatim>\<open>MarshalJSON\<close> of a patch operation, and
  \<^verbatim>\<open>patch.FilterAndSortPatches\<close>. They are parameters of the model, with the
  interfaces of section 6 of the spec: evaluators read the bindings; the operations that
  add to the context return the bindings they leave behind together with their error.
  The last argument of \<^verbatim>\<open>AddElementToContext\<close> is a pointer to false at its only call and
  is left out, as are the \<^verbatim>\<open>context.Context\<close> and the logger handed to the collaborators.

  \<^verbatim>\<open>f.policyContext.Copy()\<close> is declared outside the file as well. Whether the copy's
  JSON context is the store of \<open>f.policyContext\<close> itself or a separate one cannot be
  read off the file, so it is a parameter too: \<open>CopySharesJSONContext\<close> says that what
  is added to the copy's context is added to the store of \<open>f.policyContext\<close>.
\<close>

record 'c externals =
  EvaluateList :: "string \<Rightarrow> 'c \<Rightarrow> error + json list"
  AddElementToContext :: "'c \<Rightarrow> json \<Rightarrow> nat \<Rightarrow> nat \<Rightarrow> error option \<times> 'c"
  contextLoader :: "json list \<Rightarrow> 'c \<Rightarrow> error option \<times> 'c"
  CheckPreconditions :: "'c \<Rightarrow> json \<Rightarrow> error + bool"
  ForEach :: "string \<Rightarrow> ForEachMutation \<Rightarrow> 'c \<Rightarrow> Unstructured \<Rightarrow> json \<Rightarrow> Response"
  AddResource :: "'c \<Rightarrow> (string \<times> json) list option \<Rightarrow> error option \<times> 'c"
  Unmarshal :: "string \<Rightarrow> error + JsonPatchOperation"
  FilterAndSortPatches :: "JsonPatchOperation list \<Rightarrow> JsonPatchOperation list"
  MarshalJSON :: "JsonPatchOperation \<Rightarrow> error + string"
  CopySharesJSONContext :: bool

text \<open>
  Modelled from the spec: \<^verbatim>\<open>engineutils.InvertedElement\<close> is declared outside the
  sources at hand; the spec has the elements of a strategic-merge declaration processed
  in reverse declared order.
\<close>

definition InvertedElement :: "json list \<Rightarrow> json list" where
  "InvertedElement elements = rev elements"

section \<open>Formatting\<close>

text \<open>\<^verbatim>\<open>%d\<close> of \<^verbatim>\<open>fmt.Sprintf\<close> on a count or an index, which are never negative.\<close>

function showNat :: "nat \<Rightarrow> string" where
  "showNat n =
     (if n < 10 then [''0123456789'' ! n]
      else showNat (n div 10) @ [''0123456789'' ! (n mod 10)])"
  by pat_completeness auto
termination
  by (relation "measure id") auto

declare showNat.simps [simp del]


section \<open>Patch composition inside \<open>mutateElements\<close>\<close>

text \<open>
  Lines 135 to 151: every collected raw patch is decoded (the first one that does not
  decode ends the evaluation), the decoded operations go through
  \<^verbatim>\<open>patch.FilterAndSortPatches\<close>, and every operation is encoded again.
\<close>

fun convertPatches ::
  "'c externals \<Rightarrow> string list \<Rightarrow> JsonPatchOperation list \<Rightarrow> Response + JsonPatchOperation list" where
  "convertPatches ext [] sortedPatches = Inr sortedPatches"
| "convertPatches ext (p # ps) sortedPatches =
     (case Unmarshal ext p of
        Inl err \<Rightarrow> Inl (NewErrorResponse ''failed to convert patch'' (Some err))
      | Inr jp \<Rightarrow> convertPatches ext ps (sortedPatches @ [jp]))"

fun marshalPatches ::
  "'c externals \<Rightarrow> JsonPatchOperation list \<Rightarrow> string list \<Rightarrow> Response + string list" where
  "marshalPatches ext [] finalPatches = Inr finalPatches"
| "marshalPatches ext (p # ps) finalPatches =
     (case MarshalJSON ext p of
        Inl err \<Rightarrow> Inl (NewErrorResponse ''failed to marshal patch'' (Some err))
      | Inr data \<Rightarrow> marshalPatches ext ps (finalPatches @ [data]))"

definition composePatches :: "'c externals \<Rightarrow> string list \<Rightarrow> Response + string list" where
  "composePatches ext allPatches =
     (case convertPatches ext allPatches [] of
        Inl resp \<Rightarrow> Inl resp
      | Inr sortedPatches \<Rightarrow> marshalPatches ext (FilterAndSortPatches ext sortedPatches) [])"

section \<open>The foreach mutator\<close>

text \<open>
  \<open>writeBack\<close> is the effect, on the store of \<open>f.policyContext\<close>, of an operation on
  the JSON context of the copy made for one element.
\<close>

definition writeBack :: "'c externals \<Rightarrow> 'c \<Rightarrow> 'c world \<Rightarrow> 'c world" where
  "writeBack ext c w = (if CopySharesJSONContext ext then setBindings c w else w)"

text \<open>Lines 52 to 55 of \<open>mutateForEach\<close>: the log line and the call of \<^verbatim>\<open>AddResource\<close>.\<close>

definition addPatchedResource :: "'c externals \<Rightarrow> Response \<Rightarrow> 'c world \<Rightarrow> 'c world" where
  "addPatchedResource ext mutateResp w =
     (let w1 = logInfo ''mutateResp.PatchedResource''
                 [(''resource'', LogResource (PatchedResource mutateResp))] w
      in case AddResource ext (jsonRaw (jsonContext w1)) (Object (PatchedResource mutateResp)) of
           (None, c) \<Rightarrow> setBindings c w1
         | (Some err, c) \<Rightarrow> logError err ''failed to update resource in context'' (setBindings c w1))"

lemma size_nested_foreach:
  "ForEachMutationRaw foreach = Some raw \<Longrightarrow> DeserializeJSONArray raw = Inr specs
     \<Longrightarrow> size_list size specs < size foreach"
  by (cases foreach; cases raw) auto

text \<open>
  \<open>mutateForEach\<close> and \<open>mutateElements\<close> call each other: an element of a declaration
  with a nested foreach is handled by a new mutator over the nested declarations, at
  nesting + 1, on the resource patched so far and on \<open>f.policyContext\<close>. The two loops
  carry the variables of the source: \<open>mutateForEach_loop\<close> the remaining declarations,
  \<open>f.resource\<close>, \<open>applyCount\<close> and \<open>allPatches\<close>; \<open>mutateElements_loop\<close> the index,
  the remaining elements, \<open>patchedResource\<close> and \<open>allPatches\<close>, and it returns either
  the response of an early return or what the loop has collected. In line 43 the
  variable \<open>err\<close> is the one of line 35, which is nil there.
\<close>

function mutateForEach_loop ::
  "'c externals \<Rightarrow> Rule \<Rightarrow> nat \<Rightarrow> ForEachMutation list \<Rightarrow> resourceInfo \<Rightarrow> nat \<Rightarrow> string list
     \<Rightarrow> 'c world \<Rightarrow> Response \<times> 'c world"
and mutateElements ::
  "'c externals \<Rightarrow> Rule \<Rightarrow> nat \<Rightarrow> resourceInfo \<Rightarrow> ForEachMutation \<Rightarrow> json list
     \<Rightarrow> 'c world \<Rightarrow> Response \<times> 'c world"
and mutateElements_loop ::
  "'c externals \<Rightarrow> Rule \<Rightarrow> nat \<Rightarrow> ForEachMutation \<Rightarrow> nat \<Rightarrow> json list \<Rightarrow> resourceInfo
     \<Rightarrow> string list \<Rightarrow> 'c world \<Rightarrow> (Response + resourceInfo \<times> string list) \<times> 'c world"
where
  "mutateForEach_loop ext rule nesting [] resource applyCount allPatches w =
     (let msg = showNat applyCount @ '' elements processed''
      in if applyCount = 0
         then (NewResponse RuleStatusSkip (unstructured resource) allPatches msg, w)
         else (NewResponse RuleStatusPass (unstructured resource) allPatches msg, w))"
| "mutateForEach_loop ext rule nesting (foreach # rest) resource applyCount allPatches w =
     (case EvaluateList ext (List foreach) (jsonRaw (jsonContext w)) of
        Inl err \<Rightarrow>
          (NewErrorResponse (''failed to evaluate list '' @ List foreach @ '': '' @ err) (Some err), w)
      | Inr elements \<Rightarrow>
          (let (mutateResp, w1) = mutateElements ext rule nesting resource foreach elements w
           in if Status mutateResp = RuleStatusError
              then (NewErrorResponse ''failed to mutate elements'' None, w1)
              else if Status mutateResp \<noteq> RuleStatusSkip
              then mutateForEach_loop ext rule nesting rest
                     (if length (Patches mutateResp) > 0
                      then resource\<lparr>unstructured := PatchedResource mutateResp\<rparr>
                      else resource)
                     (applyCount + 1)
                     (if length (Patches mutateResp) > 0
                      then allPatches @ Patches mutateResp
                      else allPatches)
                     (addPatchedResource ext mutateResp w1)
              else mutateForEach_loop ext rule nesting rest resource applyCount allPatches w1))"
| "mutateElements ext rule nesting resource foreach elements w =
     (let w0 = w\<lparr>jsonContext := Checkpoint (jsonContext w)\<rparr>;
          elements' = (if RawPatchStrategicMerge foreach \<noteq> None
                       then InvertedElement elements else elements);
          (r, w1) = mutateElements_loop ext rule nesting foreach 0 elements' resource [] w0;
          resp = (case r of
                    Inl early \<Rightarrow> early
                  | Inr (patchedResource, allPatches) \<Rightarrow>
                      (case composePatches ext allPatches of
                         Inl failed \<Rightarrow> failed
                       | Inr finalPatches \<Rightarrow>
                           NewResponse RuleStatusPass (unstructured patchedResource)
                             finalPatches ''''))
      in (resp, w1\<lparr>jsonContext := Restore (jsonContext w1)\<rparr>))"
| "mutateElements_loop ext rule nesting foreach index [] patchedResource allPatches w =
     (Inr (patchedResource, allPatches), w)"
| "mutateElements_loop ext rule nesting foreach index (element # rest) patchedResource allPatches w =
     (if element = JNull
      then mutateElements_loop ext rule nesting foreach (index + 1) rest patchedResource allPatches w
      else
        (let w1 = w\<lparr>jsonContext := Reset (jsonContext w)\<rparr>
         in case AddElementToContext ext (jsonRaw (jsonContext w1)) element index nesting of
              (Some err, c1) \<Rightarrow>
                (Inl (NewErrorResponse
                        (''failed to add element to mutate.foreach['' @ showNat index @ ''].context'')
                        (Some err)),
                 writeBack ext c1 w1)
            | (None, c1) \<Rightarrow>
                (case contextLoader ext (Context foreach) c1 of
                   (Some err, c2) \<Rightarrow>
                     (Inl (NewErrorResponse
                             (''failed to load to mutate.foreach['' @ showNat index @ ''].context'')
                             (Some err)),
                      writeBack ext c2 w1)
                 | (None, c2) \<Rightarrow>
                     (case CheckPreconditions ext c2 (AnyAllConditions foreach) of
                        Inl err \<Rightarrow>
                          (Inl (NewErrorResponse
                                  (''failed to evaluate mutate.foreach['' @ showNat index
                                     @ ''].preconditions'')
                                  (Some err)),
                           writeBack ext c2 w1)
                      | Inr preconditionsPassed \<Rightarrow>
                          (if \<not> preconditionsPassed
                           then mutateElements_loop ext rule nesting foreach (index + 1) rest
                                  patchedResource allPatches
                                  (logInfo ''mutate.foreach.preconditions not met''
                                     [(''elementIndex'', LogInt index)] (writeBack ext c2 w1))
                           else
                             (case (case ForEachMutationRaw foreach of
                                      Some raw \<Rightarrow>
                                        (case DeserializeJSONArray raw of
                                           Inl err \<Rightarrow>
                                             Inl (NewErrorResponse ''failed to deserialize foreach''
                                                    (Some err), writeBack ext c2 w1)
                                         | Inr nestedForEach \<Rightarrow>
                                             Inr (mutateForEach_loop ext rule (nesting + 1)
                                                    nestedForEach patchedResource 0 []
                                                    (writeBack ext c2 w1)))
                                    | None \<Rightarrow>
                                        Inr (ForEach ext (Name rule) foreach c2
                                               (unstructured patchedResource) element,
                                             writeBack ext c2 w1)) of
                                Inl (failed, w2) \<Rightarrow> (Inl failed, w2)
                              | Inr (mutateResp, w2) \<Rightarrow>
                                  (if Status mutateResp = RuleStatusFail
                                      \<or> Status mutateResp = RuleStatusError
                                   then (Inl mutateResp, w2)
                                   else mutateElements_loop ext rule nesting foreach (index + 1) rest
                                          (if length (Patches mutateResp) > 0
                                           then patchedResource\<lparr>unstructured :=
                                                  PatchedResource mutateResp\<rparr>
                                           else patchedResource)
                                          (if length (Patches mutateResp) > 0
                                           then allPatches @ Patches mutateResp
                                           else allPatches)
                                          w2)))))))"

  by pat_completeness auto
termination
  by (relation "inv_image (less_than <*lex*> less_than)
    (\<lambda>x. case x of
        Inl (ext, rule, nesting, specs, resource, applyCount, allPatches, w) \<Rightarrow>
          (size_list size specs, 0)
      | Inr (Inl (ext, rule, nesting, resource, foreach, elements, w)) \<Rightarrow>
          (size foreach, Suc (Suc (length elements)))
      | Inr (Inr (ext, rule, nesting, foreach, index, elements, patchedResource, allPatches, w)) \<Rightarrow>
          (size foreach, Suc (length elements)))")
    (auto simp: wf_lex_prod InvertedElement_def dest: size_nested_foreach)

declare mutateForEach_loop.simps [simp del]
declare mutateElements.simps [simp del]
declare mutateElements_loop.simps [simp del]

section \<open>The rule response\<close>

text \<open>
  Modelled from the spec: \<^verbatim>\<open>engineapi.RuleResponse\<close> and its builders
  (\<^verbatim>\<open>NewRuleResponse\<close>, \<^verbatim>\<open>WithPatches\<close>, \<^verbatim>\<open>WithPatchedTarget\<close>) are declared outside the
  sources at hand. A new rule response holds the name, the rule type, the message and
  the status it is given, no patches and no patched target; \<open>WithPatches\<close> attaches the
  patch set, \<open>WithPatchedTarget\<close> the patched-target reference (the resource, its
  group-version-resource and the subresource).
\<close>

datatype RuleType = Mutation

record RuleResponse =
  name :: string
  ruleType :: RuleType
  message :: string
  status :: RuleStatus
  patches :: "string list"
  patchedTarget :: "Unstructured option"
  patchedTargetParentResourceGVR :: GroupVersionResource
  patchedTargetSubresourceName :: string

definition NewRuleResponse :: "string \<Rightarrow> RuleType \<Rightarrow> string \<Rightarrow> RuleStatus \<Rightarrow> RuleResponse" where
  "NewRuleResponse n t msg st =
     \<lparr>name = n, ruleType = t, message = msg, status = st, patches = [],
      patchedTarget = None,
      patchedTargetParentResourceGVR = \<lparr>Group = [], Version = [], Resource = []\<rparr>,
      patchedTargetSubresourceName = []\<rparr>"

definition WithPatches :: "RuleResponse \<Rightarrow> string list \<Rightarrow> RuleResponse" where
  "WithPatches r ps = r\<lparr>patches := ps\<rparr>"

definition WithPatchedTarget ::
  "RuleResponse \<Rightarrow> Unstructured \<Rightarrow> GroupVersionResource \<Rightarrow> string \<Rightarrow> RuleResponse" where
  "WithPatchedTarget r target gvr sub =
     r\<lparr>patchedTarget := Some target, patchedTargetParentResourceGVR := gvr,
       patchedTargetSubresourceName := sub\<rparr>"

definition buildSuccessMessage :: "Unstructured \<Rightarrow> string" where
  "buildSuccessMessage r =
     (if Object r = None then ''mutated resource''
      else if GetNamespace r = [] then ''mutated '' @ GetKind r @ ''/'' @ GetName r
      else ''mutated '' @ GetKind r @ ''/'' @ GetName r @ '' in namespace '' @ GetNamespace r)"

definition buildRuleResponse :: "Rule \<Rightarrow> Response \<Rightarrow> resourceInfo \<Rightarrow> RuleResponse" where
  "buildRuleResponse rule mutateResp info =
     (let message = (if Status mutateResp = RuleStatusPass
                     then buildSuccessMessage (PatchedResource mutateResp)
                     else Message mutateResp);
          resp = NewRuleResponse (Name rule) Mutation message (Status mutateResp)
      in if Status mutateResp = RuleStatusPass
         then (let resp1 = WithPatches resp (Patches mutateResp)
               in if length (Targets rule) \<noteq> 0
                  then WithPatchedTarget resp1 (PatchedResource mutateResp)
                         (parentResourceGVR info) (subresource info)
                  else resp1)
         else resp)"

section \<open>The entry point\<close>

record forEachMutator =
  rule :: Rule
  foreach :: "ForEachMutation list"
  resource :: resourceInfo
  nesting :: nat

definition mutateForEach :: "'c externals \<Rightarrow> forEachMutator \<Rightarrow> 'c world \<Rightarrow> Response \<times> 'c world" where
  "mutateForEach ext f w =
     mutateForEach_loop ext (rule f) (nesting f) (foreach f) (resource f) 0 [] w"

section \<open>The patch composer of the spec\<close>

text \<open>
  Modelled from the spec: \<^verbatim>\<open>patch.FilterAndSortPatches\<close> is declared outside the sources
  at hand. Section 4.2 of the spec describes a composer that removes duplicates and
  orders the operations deterministically: operations are grouped by the array they
  target (the path without its last segment, when that segment is an index) or else by
  their path, the groups are ordered by that string, the add operations on one array
  by ascending index and the remove operations on one array by descending index. The
  spec asks for an order that does not depend on the arrival of the operations, also
  among operations on the same path, and does not say which; here the order is
  completed by the path, the operation and the text of the value, in this sequence.
\<close>

definition lastSegment :: "string \<Rightarrow> string" where
  "lastSegment p = rev (takeWhile (\<lambda>c. c \<noteq> CHR ''/'') (rev p))"

definition parentPath :: "string \<Rightarrow> string" where
  "parentPath p = rev (drop 1 (dropWhile (\<lambda>c. c \<noteq> CHR ''/'') (rev p)))"

definition isIndex :: "string \<Rightarrow> bool" where
  "isIndex s \<longleftrightarrow> s \<noteq> [] \<and> list_all (\<lambda>c. c \<in> set ''0123456789'') s"

definition indexValue :: "string \<Rightarrow> nat" where
  "indexValue s = foldl (\<lambda>k c. 10 * k + (of_char c - 48)) 0 s"

definition patchOrder :: "JsonPatchOperation \<Rightarrow> string \<times> nat \<times> int" where
  "patchOrder p =
     (if isIndex (lastSegment (Path p)) \<and> Operation p = ''add''
      then (parentPath (Path p), 0, int (indexValue (lastSegment (Path p))))
      else if isIndex (lastSegment (Path p)) \<and> Operation p = ''remove''
      then (parentPath (Path p), 1, - int (indexValue (lastSegment (Path p))))
      else (Path p, 2, 0))"

definition patchKey ::
  "JsonPatchOperation \<Rightarrow> (string \<times> nat \<times> int) \<times> string \<times> string \<times> string" where
  "patchKey p = (patchOrder p, Path p, Operation p, Value p)"

definition composeSpec :: "JsonPatchOperation list \<Rightarrow> JsonPatchOperation list" where
  "composeSpec ops = sort_key patchKey (remdups ops)"

text \<open>
  The same collaborators, with \<open>composeSpec\<close> in the place of
  \<^verbatim>\<open>patch.FilterAndSortPatches\<close>.
\<close>

definition withComposeSpec :: "'c externals \<Rightarrow> 'c externals" where
  "withComposeSpec ext = ext\<lparr>FilterAndSortPatches := composeSpec\<rparr>"

section \<open>Collaborators that report no \<^verbatim>\<open>AddResource\<close> error\<close>

text \<open>
  The same collaborators, with an \<^verbatim>\<open>AddResource\<close> that leaves the same bindings and
  reports no error.
\<close>

definition ignoreAddResourceError :: "'c externals \<Rightarrow> 'c externals" where
  "ignoreAddResourceError ext =
     ext\<lparr>AddResource := (\<lambda>c obj. (None, snd (AddResource ext c obj)))\<rparr>"

section \<open>A sample environment\<close>

text \<open>
  Concrete collaborators, used to run the mutator on explicit rules. The bindings are a
  list of named values, newest first. The list expression \<open>containers\<close> evaluates to two
  names, \<open>empty\<close> to no element, \<open>mixed\<close> to a list with a null and an element that the
  mutator rejects, \<open>names\<close> to two names with a number between them; any other
  expression cannot be evaluated. Loading a non-empty list of context declarations
  fails. Preconditions are a JSON boolean (or null, which passes), or a name, which
  asks that the element be a string other than that name and cannot be evaluated on an
  element that is not a string. The mutator answers Fail on the element \<open>reject\<close>; on
  any other element it appends the element to the resource and returns one patch for
  it. Adding a resource without an object fails. A raw patch is decoded to an add
  operation on the path it spells; the empty byte string does not decode.
\<close>

definition appendItem :: "Unstructured \<Rightarrow> json \<Rightarrow> Unstructured" where
  "appendItem u e =
     \<lparr>Object = Some ((case Object u of None \<Rightarrow> [] | Some m \<Rightarrow> m) @ [(''item'', e)])\<rparr>"

definition patchFor :: "json \<Rightarrow> string" where
  "patchFor e = (case e of JString s \<Rightarrow> ''/items/'' @ s | _ \<Rightarrow> ''/items/-'')"

definition sampleExternals :: "(string \<times> json) list externals" where
  "sampleExternals =
     \<lparr>EvaluateList = (\<lambda>expr c.
          if expr = ''containers'' then Inr [JString ''a'', JString ''b'']
          else if expr = ''empty'' then Inr []
          else if expr = ''mixed'' then Inr [JNull, JString ''reject'', JString ''c'']
          else if expr = ''names'' then Inr [JString ''a'', JNumber 7, JString ''b'']
          else Inl ''invalid expression''),
      AddElementToContext = (\<lambda>c e i k. (None, (''element'', e) # c)),
      contextLoader = (\<lambda>decls c.
          if decls = [] then (None, c) else (Some ''context entry not found'', c)),
      CheckPreconditions = (\<lambda>c conds.
          case conds of JBool b \<Rightarrow> Inr b | JNull \<Rightarrow> Inr True
          | JString s \<Rightarrow>
              (case map_of c ''element'' of Some (JString t) \<Rightarrow> Inr (t \<noteq> s)
               | _ \<Rightarrow> Inl ''element is not a string'')
          | _ \<Rightarrow> Inl ''invalid conditions''),
      ForEach = (\<lambda>nm fe c u e.
          if e = JString ''reject'' then NewResponse RuleStatusFail u [] ''rejected''
          else NewResponse RuleStatusPass (appendItem u e) [patchFor e] ''applied''),
      AddResource = (\<lambda>c obj.
          case obj of None \<Rightarrow> (Some ''no object'', c)
          | Some m \<Rightarrow> (None, (''request.object'', JObject m) # c)),
      Unmarshal = (\<lambda>p.
          if p = [] then Inl ''unexpected end of JSON input''
          else Inr \<lparr>Operation = ''add'', Path = p, Value = ''null''\<rparr>),
      FilterAndSortPatches = (\<lambda>ops. ops),
      MarshalJSON = (\<lambda>operation. Inr (Path operation)),
      CopySharesJSONContext = True\<rparr>"

text \<open>The same collaborators with a mutator that accepts every element.\<close>

definition passingExternals :: "(string \<times> json) list externals" where
  "passingExternals =
     sampleExternals\<lparr>ForEach := (\<lambda>nm fe c u e.
        NewResponse RuleStatusPass (appendItem u e) [patchFor e] ''applied'')\<rparr>"

definition sampleRule :: Rule where
  "sampleRule = \<lparr>Name = ''add-items'', Targets = []\<rparr>"

definition sampleResource :: resourceInfo where
  "sampleResource =
     \<lparr>unstructured = \<lparr>Object = Some [(''kind'', JString ''Pod'')]\<rparr>, subresource = [],
      parentResourceGVR = \<lparr>Group = [], Version = [], Resource = []\<rparr>\<rparr>"

definition sampleWorld :: "(string \<times> json) list world" where
  "sampleWorld = \<lparr>jsonContext = \<lparr>jsonRaw = [], jsonRawCheckpoints = []\<rparr>, logger = []\<rparr>"

text \<open>A declaration over a list expression, with no context, no nested foreach, a JSON patch.\<close>

definition plainForEach :: "string \<Rightarrow> json \<Rightarrow> ForEachMutation" where
  "plainForEach expr conds = ForEachMutation expr [] conds None None"

definition sampleMutator :: "ForEachMutation list \<Rightarrow> forEachMutator" where
  "sampleMutator specs =
     \<lparr>rule = sampleRule, foreach = specs, resource = sampleResource, nesting = 0\<rparr>"

section \<open>Basic facts\<close>

text \<open>The equations that run the mutator on a concrete rule.\<close>

lemmas run_mutator =
  mutateForEach_def mutateForEach_loop.simps mutateElements.simps mutateElements_loop.simps
  composePatches_def addPatchedResource_def writeBack_def setBindings_def logInfo_def
  logError_def Checkpoint_def Restore_def Reset_def InvertedElement_def Let_def
  NewErrorResponse_def NewResponse_def emptyUnstructured_def

lemmas run_sample =
  sampleExternals_def passingExternals_def sampleMutator_def sampleRule_def sampleResource_def
  sampleWorld_def plainForEach_def appendItem_def patchFor_def

lemma NewResponse_sel [simp]:
  "Status (NewResponse st u ps msg) = st"
  "PatchedResource (NewResponse st u ps msg) = u"
  "Patches (NewResponse st u ps msg) = ps"
  "Message (NewResponse st u ps msg) = msg"
  by (simp_all add: NewResponse_def)

lemma NewErrorResponse_sel [simp]:
  "Status (NewErrorResponse msg err) = RuleStatusError"
  "PatchedResource (NewErrorResponse msg err) = emptyUnstructured"
  "Patches (NewErrorResponse msg err) = []"
  by (simp_all add: NewErrorResponse_def)

lemma showNat_digit: "n < 10 \<Longrightarrow> showNat n = [''0123456789'' ! n]"
  by (simp add: showNat.simps)

lemma showNat_0 [simp]: "showNat 0 = ''0''"
  by (simp add: showNat_digit)

lemma showNat_1 [simp]: "showNat (Suc 0) = ''1''"
  by (simp add: showNat_digit)

lemma showNat_2 [simp]: "showNat (Suc (Suc 0)) = ''2''"
  by (simp add: showNat_digit)

lemma showNat_3 [simp]: "showNat (Suc (Suc (Suc 0))) = ''3''"
  by (simp add: showNat_digit)

lemma convertPatches_error:
  "convertPatches ext ps acc = Inl resp
     \<Longrightarrow> \<exists>e. resp = NewErrorResponse ''failed to convert patch'' (Some e)"
  by (induction ps arbitrary: acc) (auto split: sum.splits)

lemma marshalPatches_error:
  "marshalPatches ext ps acc = Inl resp
     \<Longrightarrow> \<exists>e. resp = NewErrorResponse ''failed to marshal patch'' (Some e)"
  by (induction ps arbitrary: acc) (auto split: sum.splits)

lemma composePatches_error:
  "composePatches ext ps = Inl resp \<Longrightarrow> Status resp = RuleStatusError"
  by (auto simp: composePatches_def split: sum.splits
      dest!: convertPatches_error marshalPatches_error)

text \<open>An early return of the element loop carries the status Fail or Error.\<close>

lemma mutateElements_loop_early_status:
  "mutateElements_loop ext r n fe i els pr ap w = (Inl resp, w')
     \<Longrightarrow> Status resp = RuleStatusFail \<or> Status resp = RuleStatusError"
proof (induction els arbitrary: i pr ap w)
  case Nil
  then show ?case by (simp add: mutateElements_loop.simps)
next
  case (Cons e els)
  from Cons.prems show ?case
    by (auto simp: mutateElements_loop.simps(2) [of ext r n fe i e els pr ap w] Let_def
        split: if_splits prod.splits option.splits sum.splits dest: Cons.IH)
qed

text \<open>No return of \<open>mutateElements\<close> has the status Skip.\<close>

lemma mutateElements_never_skip:
  "Status (fst (mutateElements ext r n res fe els w)) \<noteq> RuleStatusSkip"
  by (auto simp: mutateElements.simps Let_def split: prod.splits sum.splits
      dest: mutateElements_loop_early_status composePatches_error)

text \<open>What logging, writing back and adding a resource leave of the context store.\<close>

lemma checkpoints_Reset [simp]: "jsonRawCheckpoints (Reset c) = jsonRawCheckpoints c"
  by (simp add: Reset_def split: list.splits)

lemma checkpoints_writeBack [simp]:
  "jsonRawCheckpoints (jsonContext (writeBack ext c w)) = jsonRawCheckpoints (jsonContext w)"
  by (simp add: writeBack_def setBindings_def)

lemma jsonContext_logInfo [simp]: "jsonContext (logInfo msg kvs w) = jsonContext w"
  by (simp add: logInfo_def)

lemma jsonContext_logError [simp]: "jsonContext (logError err msg w) = jsonContext w"
  by (simp add: logError_def)

lemma checkpoints_addPatchedResource [simp]:
  "jsonRawCheckpoints (jsonContext (addPatchedResource ext mr w)) = jsonRawCheckpoints (jsonContext w)"
  by (simp add: addPatchedResource_def setBindings_def Let_def split: prod.splits option.splits)

text \<open>
  The paths through one iteration of the element loop, as a case rule: what the
  iteration on a non-nil element calls, and what the loop does next.
\<close>

lemma mutateElements_loop_Cons_cases [case_names nil addElement load preconditions skip
    deserialize nested single]:
  fixes w :: "'c world"
  defines "w1 \<equiv> w\<lparr>jsonContext := Reset (jsonContext w)\<rparr>"
  obtains
    "e = JNull"
    "mutateElements_loop ext r n fe i (e # rest) pr ap w
       = mutateElements_loop ext r n fe (i + 1) rest pr ap w"
  | err c1 where
    "e \<noteq> JNull"
    "AddElementToContext ext (jsonRaw (jsonContext w1)) e i n = (Some err, c1)"
    "mutateElements_loop ext r n fe i (e # rest) pr ap w
       = (Inl (NewErrorResponse
                 (''failed to add element to mutate.foreach['' @ showNat i @ ''].context'')
                 (Some err)),
          writeBack ext c1 w1)"
  | err c1 c2 where
    "e \<noteq> JNull"
    "AddElementToContext ext (jsonRaw (jsonContext w1)) e i n = (None, c1)"
    "contextLoader ext (Context fe) c1 = (Some err, c2)"
    "mutateElements_loop ext r n fe i (e # rest) pr ap w
       = (Inl (NewErrorResponse
                 (''failed to load to mutate.foreach['' @ showNat i @ ''].context'')
                 (Some err)),
          writeBack ext c2 w1)"
  | err c1 c2 where
    "e \<noteq> JNull"
    "AddElementToContext ext (jsonRaw (jsonContext w1)) e i n = (None, c1)"
    "contextLoader ext (Context fe) c1 = (None, c2)"
    "CheckPreconditions ext c2 (AnyAllConditions fe) = Inl err"
    "mutateElements_loop ext r n fe i (e # rest) pr ap w
       = (Inl (NewErrorResponse
                 (''failed to evaluate mutate.foreach['' @ showNat i @ ''].preconditions'')
                 (Some err)),
          writeBack ext c2 w1)"
  | c1 c2 where
    "e \<noteq> JNull"
    "AddElementToContext ext (jsonRaw (jsonContext w1)) e i n = (None, c1)"
    "contextLoader ext (Context fe) c1 = (None, c2)"
    "CheckPreconditions ext c2 (AnyAllConditions fe) = Inr False"
    "mutateElements_loop ext r n fe i (e # rest) pr ap w
       = mutateElements_loop ext r n fe (i + 1) rest pr ap
           (logInfo ''mutate.foreach.preconditions not met'' [(''elementIndex'', LogInt i)]
              (writeBack ext c2 w1))"
  | err c1 c2 raw where
    "e \<noteq> JNull"
    "AddElementToContext ext (jsonRaw (jsonContext w1)) e i n = (None, c1)"
    "contextLoader ext (Context fe) c1 = (None, c2)"
    "CheckPreconditions ext c2 (AnyAllConditions fe) = Inr True"
    "ForEachMutationRaw fe = Some raw"
    "DeserializeJSONArray raw = Inl err"
    "mutateElements_loop ext r n fe i (e # rest) pr ap w
       = (Inl (NewErrorResponse ''failed to deserialize foreach'' (Some err)),
          writeBack ext c2 w1)"
  | c1 c2 raw nestedForEach mutateResp w2 where
    "e \<noteq> JNull"
    "AddElementToContext ext (jsonRaw (jsonContext w1)) e i n = (None, c1)"
    "contextLoader ext (Context fe) c1 = (None, c2)"
    "CheckPreconditions ext c2 (AnyAllConditions fe) = Inr True"
    "ForEachMutationRaw fe = Some raw"
    "DeserializeJSONArray raw = Inr nestedForEach"
    "mutateForEach_loop ext r (n + 1) nestedForEach pr 0 [] (writeBack ext c2 w1)
       = (mutateResp, w2)"
    "mutateElements_loop ext r n fe i (e # rest) pr ap w
       = (if Status mutateResp = RuleStatusFail \<or> Status mutateResp = RuleStatusError
          then (Inl mutateResp, w2)
          else mutateElements_loop ext r n fe (i + 1) rest
                 (if length (Patches mutateResp) > 0
                  then pr\<lparr>unstructured := PatchedResource mutateResp\<rparr> else pr)
                 (if length (Patches mutateResp) > 0 then ap @ Patches mutateResp else ap)
                 w2)"
  | c1 c2 mutateResp where
    "e \<noteq> JNull"
    "AddElementToContext ext (jsonRaw (jsonContext w1)) e i n = (None, c1)"
    "contextLoader ext (Context fe) c1 = (None, c2)"
    "CheckPreconditions ext c2 (AnyAllConditions fe) = Inr True"
    "ForEachMutationRaw fe = None"
    "mutateResp = ForEach ext (Name r) fe c2 (unstructured pr) e"
    "mutateElements_loop ext r n fe i (e # rest) pr ap w
       = (if Status mutateResp = RuleStatusFail \<or> Status mutateResp = RuleStatusError
          then (Inl mutateResp, writeBack ext c2 w1)
          else mutateElements_loop ext r n fe (i + 1) rest
                 (if length (Patches mutateResp) > 0
                  then pr\<lparr>unstructured := PatchedResource mutateResp\<rparr> else pr)
                 (if length (Patches mutateResp) > 0 then ap @ Patches mutateResp else ap)
                 (writeBack ext c2 w1))"
proof (cases "e = JNull")
  case True
  show ?thesis
    by (rule that(1) [OF True]) (simp add: True mutateElements_loop.simps(2))
next
  case nonnil: False
  note step = mutateElements_loop.simps(2) [of ext r n fe i e rest pr ap w]
  obtain a1 c1 where add: "AddElementToContext ext (jsonRaw (jsonContext w1)) e i n = (a1, c1)"
    by (cases "AddElementToContext ext (jsonRaw (jsonContext w1)) e i n")
  show ?thesis
  proof (cases a1)
    case (Some err)
    show ?thesis
      by (rule that(2) [OF nonnil add [unfolded Some]])
        (use nonnil add Some in \<open>simp add: step w1_def\<close>)
  next
    case addok: None
    obtain a2 c2 where load: "contextLoader ext (Context fe) c1 = (a2, c2)"
      by (cases "contextLoader ext (Context fe) c1")
    show ?thesis
    proof (cases a2)
      case (Some err)
      show ?thesis
        by (rule that(3) [OF nonnil add [unfolded addok] load [unfolded Some]])
          (use nonnil add addok load Some in \<open>simp add: step w1_def\<close>)
    next
      case loadok: None
      show ?thesis
      proof (cases "CheckPreconditions ext c2 (AnyAllConditions fe)")
        case (Inl err)
        show ?thesis
          by (rule that(4) [OF nonnil add [unfolded addok] load [unfolded loadok] Inl])
            (use nonnil add addok load loadok Inl in \<open>simp add: step w1_def\<close>)
      next
        case (Inr passed)
        show ?thesis
        proof (cases passed)
          case False
          with Inr have pre: "CheckPreconditions ext c2 (AnyAllConditions fe) = Inr False"
            by simp
          show ?thesis
            by (rule that(5) [OF nonnil add [unfolded addok] load [unfolded loadok] pre])
              (use nonnil add addok load loadok pre in \<open>simp add: step w1_def\<close>)
        next
          case True
          with Inr have pre: "CheckPreconditions ext c2 (AnyAllConditions fe) = Inr True"
            by simp
          show ?thesis
          proof (cases "ForEachMutationRaw fe")
            case None
            show ?thesis
              by (rule that(8) [OF nonnil add [unfolded addok] load [unfolded loadok] pre None refl])
                (use nonnil add addok load loadok pre None in \<open>simp add: step w1_def\<close>)
          next
            case (Some raw)
            show ?thesis
            proof (cases "DeserializeJSONArray raw")
              case (Inl err)
              show ?thesis
                by (rule that(6) [OF nonnil add [unfolded addok] load [unfolded loadok] pre
                      Some Inl])
                  (use nonnil add addok load loadok pre Some Inl in \<open>simp add: step w1_def\<close>)
            next
              case (Inr nestedForEach)
              obtain mutateResp w2 where
                nested: "mutateForEach_loop ext r (n + 1) nestedForEach pr 0 []
                           (writeBack ext c2 w1) = (mutateResp, w2)"
                by (cases "mutateForEach_loop ext r (n + 1) nestedForEach pr 0 []
                             (writeBack ext c2 w1)")
              show ?thesis
                by (rule that(7) [OF nonnil add [unfolded addok] load [unfolded loadok] pre
                      Some Inr nested])
                  (use nonnil add addok load loadok pre Some Inr nested in
                    \<open>simp add: step w1_def\<close>)
            qed
          qed
        qed
      qed
    qed
  qed
qed

section \<open>The outcome of a rule\<close>

text \<open>
  The loop over the declarations ends in Error, or in Skip when it was entered with no
  declaration and a count of zero, or in Pass with a message that counts the
  declarations.
\<close>

lemma mutateForEach_loop_outcome:
  "Status (fst (mutateForEach_loop ext r n specs res k ap w)) = RuleStatusError
   \<or> (specs = [] \<and> k = 0
      \<and> fst (mutateForEach_loop ext r n specs res k ap w)
          = NewResponse RuleStatusSkip (unstructured res) ap ''0 elements processed'')
   \<or> (0 < k + length specs
      \<and> Status (fst (mutateForEach_loop ext r n specs res k ap w)) = RuleStatusPass
      \<and> Message (fst (mutateForEach_loop ext r n specs res k ap w))
          = showNat (k + length specs) @ '' elements processed'')"
proof (induction specs arbitrary: res k ap w)
  case Nil
  show ?case by (simp add: mutateForEach_loop.simps Let_def)
next
  case (Cons fe specs)
  show ?case
  proof (cases "EvaluateList ext (List fe) (jsonRaw (jsonContext w))")
    case (Inl err)
    then show ?thesis by (simp add: mutateForEach_loop.simps)
  next
    case (Inr els)
    obtain mr w1 where m: "mutateElements ext r n res fe els w = (mr, w1)"
      by (cases "mutateElements ext r n res fe els w")
    have ns: "Status mr \<noteq> RuleStatusSkip"
      using mutateElements_never_skip [of ext r n res fe els w] m by simp
    show ?thesis
    proof (cases "Status mr = RuleStatusError")
      case True
      with Inr m show ?thesis by (simp add: mutateForEach_loop.simps)
    next
      case False
      let ?res = "if 0 < length (Patches mr) then res\<lparr>unstructured := PatchedResource mr\<rparr> else res"
      let ?ap = "if 0 < length (Patches mr) then ap @ Patches mr else ap"
      have eq: "mutateForEach_loop ext r n (fe # specs) res k ap w
                  = mutateForEach_loop ext r n specs ?res (k + 1) ?ap (addPatchedResource ext mr w1)"
        using Inr m ns False by (simp add: mutateForEach_loop.simps(2) [of ext r n fe specs])
      from Cons.IH [of ?res "k + 1" ?ap "addPatchedResource ext mr w1"]
      show ?thesis unfolding eq by auto
    qed
  qed
qed

text \<open>No return of the loop over the declarations has the status Fail.\<close>

lemma mutateForEach_loop_never_fail:
  "mutateForEach_loop ext r n specs res k ap w = (resp, w') \<Longrightarrow> Status resp \<noteq> RuleStatusFail"
  using mutateForEach_loop_outcome [of ext r n specs res k ap w] by auto

text \<open>
  When the mutator of a single element never answers Fail, an early return of the
  element loop carries the status Error, and \<open>mutateElements\<close> ends in Pass or Error.
\<close>

lemma mutateElements_loop_early_error:
  assumes nofail: "\<And>nm d c u e. Status (ForEach ext nm d c u e) \<noteq> RuleStatusFail"
  shows "mutateElements_loop ext r n fe i els pr ap w = (Inl resp, w')
           \<Longrightarrow> Status resp = RuleStatusError"
proof (induction els arbitrary: i pr ap w)
  case Nil
  then show ?case by (simp add: mutateElements_loop.simps)
next
  case (Cons e els)
  from Cons.prems show ?case
    by (auto simp: mutateElements_loop.simps(2) [of ext r n fe i e els pr ap w] Let_def nofail
        split: if_splits prod.splits option.splits sum.splits
        dest: Cons.IH mutateForEach_loop_never_fail)
qed

lemma mutateElements_pass_or_error:
  assumes nofail: "\<And>nm d c u e. Status (ForEach ext nm d c u e) \<noteq> RuleStatusFail"
  shows "Status (fst (mutateElements ext r n res fe els w)) = RuleStatusPass
         \<or> Status (fst (mutateElements ext r n res fe els w)) = RuleStatusError"
  by (auto simp: mutateElements.simps Let_def split: prod.splits sum.splits
      dest: mutateElements_loop_early_error [OF nofail] composePatches_error)

text \<open>
  The count and the patches the loop is entered with: an outcome with status Error does
  not depend on them; any other outcome is the outcome of the loop entered with a count
  of zero and no patch, with the count added to the number in the message and the
  patches put in front.
\<close>

lemma mutateForEach_loop_accumulators:
  "fst (mutateForEach_loop ext r n specs res k ap w)
     = (if Status (fst (mutateForEach_loop ext r n specs res 0 [] w)) = RuleStatusError
        then fst (mutateForEach_loop ext r n specs res 0 [] w)
        else NewResponse (if k + length specs = 0 then RuleStatusSkip else RuleStatusPass)
               (PatchedResource (fst (mutateForEach_loop ext r n specs res 0 [] w)))
               (ap @ Patches (fst (mutateForEach_loop ext r n specs res 0 [] w)))
               (showNat (k + length specs) @ '' elements processed''))"
proof (induction specs arbitrary: res k ap w)
  case Nil
  show ?case by (simp add: mutateForEach_loop.simps Let_def)
next
  case (Cons fe specs)
  show ?case
  proof (cases "EvaluateList ext (List fe) (jsonRaw (jsonContext w))")
    case (Inl err)
    then show ?thesis by (simp add: mutateForEach_loop.simps)
  next
    case (Inr els)
    obtain mr w1 where m: "mutateElements ext r n res fe els w = (mr, w1)"
      by (cases "mutateElements ext r n res fe els w")
    have ns: "Status mr \<noteq> RuleStatusSkip"
      using mutateElements_never_skip [of ext r n res fe els w] m by simp
    show ?thesis
    proof (cases "Status mr = RuleStatusError")
      case True
      with Inr m show ?thesis by (simp add: mutateForEach_loop.simps)
    next
      case False
      let ?res = "if 0 < length (Patches mr) then res\<lparr>unstructured := PatchedResource mr\<rparr> else res"
      let ?w = "addPatchedResource ext mr w1"
      have eq: "mutateForEach_loop ext r n (fe # specs) res k' ap' w
                  = mutateForEach_loop ext r n specs ?res (k' + 1)
                      (if 0 < length (Patches mr) then ap' @ Patches mr else ap') ?w" for k' ap'
        using Inr m ns False by (simp add: mutateForEach_loop.simps(2) [of ext r n fe specs])
      show ?thesis
        unfolding eq
        by (subst Cons.IH [of ?res "k + 1" _ ?w], subst (1 2 3 4) Cons.IH [of ?res "0 + 1" _ ?w])
          simp
    qed
  qed
qed

text \<open>
  Claim C1 asks for Skip with "0 elements processed" exactly when no element of any
  declaration passed its preconditions. On the code this fails: a rule with one
  declaration whose list is empty, and a rule with one declaration whose two elements
  both fail their preconditions, end in Pass with "1 elements processed" and no patch.
\<close>

theorem skip_iff_no_element_passed_counterexample:
  "EvaluateList sampleExternals ''empty'' [] = Inr []
   \<and> fst (mutateForEach sampleExternals (sampleMutator [plainForEach ''empty'' JNull]) sampleWorld)
       = NewResponse RuleStatusPass (unstructured sampleResource) [] ''1 elements processed''
   \<and> fst (mutateForEach sampleExternals
             (sampleMutator [plainForEach ''containers'' (JBool False)]) sampleWorld)
       = NewResponse RuleStatusPass (unstructured sampleResource) [] ''1 elements processed''"
  by (simp add: run_mutator run_sample)

text \<open>
  Claim C1, amended. Let the mutator of a single element never answer Fail, so that the
  element evaluation of a declaration ends in Pass or in Error. Then \<open>mutateForEach\<close>
  returns Skip exactly when the rule has no foreach declaration, and then with the
  message "0 elements processed", the resource of the mutator and no patch. With at
  least one declaration it returns Error or Pass, and on Pass the message counts the
  declarations, whatever their elements did. The outcome carries the accumulated
  patches: when the element evaluation of the first declaration ends in Pass, the
  outcome of the rule is the Error of the remaining declarations (evaluated on the
  resource adopted from the first declaration), or else Pass with the patches of the
  first declaration followed by the patches of the remaining declarations, and with
  the resource the remaining declarations end with.
\<close>

theorem mutateForEach_skip_iff_no_declaration:
  assumes nofail: "\<And>nm d c u e. Status (ForEach ext nm d c u e) \<noteq> RuleStatusFail"
  shows "(Status (fst (mutateElements ext r n res d els0 w0)) = RuleStatusPass
          \<or> Status (fst (mutateElements ext r n res d els0 w0)) = RuleStatusError)
   \<and> (Status (fst (mutateForEach ext f w)) = RuleStatusSkip \<longleftrightarrow> foreach f = [])
   \<and> (foreach f = [] \<longrightarrow>
        fst (mutateForEach ext f w)
          = NewResponse RuleStatusSkip (unstructured (resource f)) [] ''0 elements processed'')
   \<and> (foreach f \<noteq> [] \<longrightarrow>
        Status (fst (mutateForEach ext f w)) = RuleStatusError
        \<or> (Status (fst (mutateForEach ext f w)) = RuleStatusPass
           \<and> Message (fst (mutateForEach ext f w))
               = showNat (length (foreach f)) @ '' elements processed''))
   \<and> (foreach f = fe # rest
        \<and> EvaluateList ext (List fe) (jsonRaw (jsonContext w)) = Inr els
        \<and> mutateElements ext (rule f) (nesting f) (resource f) fe els w = (mr, w1)
        \<and> Status mr = RuleStatusPass
        \<and> others = fst (mutateForEach ext
                     (f\<lparr>foreach := rest,
                        resource := (if Patches mr \<noteq> []
                                     then (resource f)\<lparr>unstructured := PatchedResource mr\<rparr>
                                     else resource f)\<rparr>)
                     (addPatchedResource ext mr w1)) \<longrightarrow>
        (if Status others = RuleStatusError then fst (mutateForEach ext f w) = others
         else Status (fst (mutateForEach ext f w)) = RuleStatusPass
              \<and> Patches (fst (mutateForEach ext f w)) = Patches mr @ Patches others
              \<and> PatchedResource (fst (mutateForEach ext f w)) = PatchedResource others
              \<and> Message (fst (mutateForEach ext f w))
                  = showNat (1 + length rest) @ '' elements processed''))"
proof -
  note outcome =
    mutateForEach_loop_outcome [of ext "rule f" "nesting f" "foreach f" "resource f" 0 "[]" w]
  have c1: "Status (fst (mutateElements ext r n res d els0 w0)) = RuleStatusPass
            \<or> Status (fst (mutateElements ext r n res d els0 w0)) = RuleStatusError"
    by (rule mutateElements_pass_or_error [OF nofail])
  have c2: "Status (fst (mutateForEach ext f w)) = RuleStatusSkip \<longleftrightarrow> foreach f = []"
    using outcome
    by (cases "foreach f") (auto simp: mutateForEach_def mutateForEach_loop.simps(1))
  have c3: "foreach f = [] \<longrightarrow>
        fst (mutateForEach ext f w)
          = NewResponse RuleStatusSkip (unstructured (resource f)) [] ''0 elements processed''"
    by (simp add: mutateForEach_def mutateForEach_loop.simps(1))
  have c4: "foreach f \<noteq> [] \<longrightarrow>
        Status (fst (mutateForEach ext f w)) = RuleStatusError
        \<or> (Status (fst (mutateForEach ext f w)) = RuleStatusPass
           \<and> Message (fst (mutateForEach ext f w))
               = showNat (length (foreach f)) @ '' elements processed'')"
    using outcome
    by (cases "foreach f") (auto simp: mutateForEach_def mutateForEach_loop.simps(1))
  have c5: "foreach f = fe # rest
        \<and> EvaluateList ext (List fe) (jsonRaw (jsonContext w)) = Inr els
        \<and> mutateElements ext (rule f) (nesting f) (resource f) fe els w = (mr, w1)
        \<and> Status mr = RuleStatusPass
        \<and> others = fst (mutateForEach ext
                     (f\<lparr>foreach := rest,
                        resource := (if Patches mr \<noteq> []
                                     then (resource f)\<lparr>unstructured := PatchedResource mr\<rparr>
                                     else resource f)\<rparr>)
                     (addPatchedResource ext mr w1)) \<longrightarrow>
        (if Status others = RuleStatusError then fst (mutateForEach ext f w) = others
         else Status (fst (mutateForEach ext f w)) = RuleStatusPass
              \<and> Patches (fst (mutateForEach ext f w)) = Patches mr @ Patches others
              \<and> PatchedResource (fst (mutateForEach ext f w)) = PatchedResource others
              \<and> Message (fst (mutateForEach ext f w))
                  = showNat (1 + length rest) @ '' elements processed'')"
  proof (intro impI, elim conjE)
    let ?res = "if Patches mr \<noteq> [] then (resource f)\<lparr>unstructured := PatchedResource mr\<rparr>
                else resource f"
    let ?w = "addPatchedResource ext mr w1"
    assume f: "foreach f = fe # rest"
      and ev: "EvaluateList ext (List fe) (jsonRaw (jsonContext w)) = Inr els"
      and m: "mutateElements ext (rule f) (nesting f) (resource f) fe els w = (mr, w1)"
      and st: "Status mr = RuleStatusPass"
      and ot: "others = fst (mutateForEach ext (f\<lparr>foreach := rest, resource := ?res\<rparr>) ?w)"
    have ot': "others = fst (mutateForEach_loop ext (rule f) (nesting f) rest ?res 0 [] ?w)"
      unfolding ot by (simp add: mutateForEach_def)
    have eq: "mutateForEach ext f w
                = mutateForEach_loop ext (rule f) (nesting f) rest ?res (0 + 1)
                    (if Patches mr \<noteq> [] then Patches mr else []) ?w"
      using f ev m st
      by (simp add: mutateForEach_def mutateForEach_loop.simps(2) [of ext "rule f" "nesting f" fe rest])
    show "if Status others = RuleStatusError then fst (mutateForEach ext f w) = others
         else Status (fst (mutateForEach ext f w)) = RuleStatusPass
              \<and> Patches (fst (mutateForEach ext f w)) = Patches mr @ Patches others
              \<and> PatchedResource (fst (mutateForEach ext f w)) = PatchedResource others
              \<and> Message (fst (mutateForEach ext f w))
                  = showNat (1 + length rest) @ '' elements processed''"
      unfolding eq
      by (subst (1 2 3 4 5) mutateForEach_loop_accumulators [of ext "rule f" "nesting f" rest ?res "0 + 1" _ ?w])
        (simp add: ot' [symmetric])
  qed
  from c1 c2 c3 c4 c5 show ?thesis by (intro conjI)
qed

theorem mutateForEach_skip_iff_no_declaration_witness:
  "(\<forall>nm d c u e. Status (ForEach passingExternals nm d c u e) \<noteq> RuleStatusFail)
   \<and> foreach (sampleMutator [plainForEach ''containers'' JNull, plainForEach ''empty'' JNull])
       = plainForEach ''containers'' JNull # [plainForEach ''empty'' JNull]
   \<and> EvaluateList passingExternals (List (plainForEach ''containers'' JNull))
        (jsonRaw (jsonContext sampleWorld)) = Inr [JString ''a'', JString ''b'']
   \<and> mutateElements passingExternals sampleRule 0 sampleResource (plainForEach ''containers'' JNull)
        [JString ''a'', JString ''b''] sampleWorld
       = (NewResponse RuleStatusPass
            \<lparr>Object = Some [(''kind'', JString ''Pod''), (''item'', JString ''a''),
                              (''item'', JString ''b'')]\<rparr>
            [''/items/a'', ''/items/b''] [],
          sampleWorld)
   \<and> fst (mutateForEach passingExternals
        (sampleMutator [plainForEach ''containers'' JNull, plainForEach ''empty'' JNull])
        sampleWorld)
       = NewResponse RuleStatusPass
           \<lparr>Object = Some [(''kind'', JString ''Pod''), (''item'', JString ''a''),
                             (''item'', JString ''b'')]\<rparr>
           [''/items/a'', ''/items/b''] ''2 elements processed''
   \<and> foreach (sampleMutator []) = []
   \<and> fst (mutateForEach passingExternals (sampleMutator []) sampleWorld)
       = NewResponse RuleStatusSkip (unstructured sampleResource) [] ''0 elements processed''"
proof -
  let ?c = "plainForEach ''containers'' JNull"
  let ?e = "plainForEach ''empty'' JNull"
  let ?mr = "NewResponse RuleStatusPass
            \<lparr>Object = Some [(''kind'', JString ''Pod''), (''item'', JString ''a''),
                              (''item'', JString ''b'')]\<rparr>
            [''/items/a'', ''/items/b''] []"
  have nofail: "\<And>nm d c u e. Status (ForEach passingExternals nm d c u e) \<noteq> RuleStatusFail"
    by (simp add: passingExternals_def)
  have f: "foreach (sampleMutator [?c, ?e]) = ?c # [?e]"
    by (simp add: sampleMutator_def)
  have ev: "EvaluateList passingExternals (List ?c) (jsonRaw (jsonContext sampleWorld))
              = Inr [JString ''a'', JString ''b'']"
    by (simp add: run_sample)
  have m: "mutateElements passingExternals sampleRule 0 sampleResource ?c
             [JString ''a'', JString ''b''] sampleWorld = (?mr, sampleWorld)"
    by (simp add: run_mutator run_sample)
  have m': "mutateElements passingExternals (rule (sampleMutator [?c, ?e]))
              (nesting (sampleMutator [?c, ?e])) (resource (sampleMutator [?c, ?e])) ?c
              [JString ''a'', JString ''b''] sampleWorld = (?mr, sampleWorld)"
    using m by (simp add: sampleMutator_def)
  have others: "fst (mutateForEach passingExternals
                  ((sampleMutator [?c, ?e])\<lparr>foreach := [?e],
                     resource := (if Patches ?mr \<noteq> []
                                  then (resource (sampleMutator [?c, ?e]))
                                         \<lparr>unstructured := PatchedResource ?mr\<rparr>
                                  else resource (sampleMutator [?c, ?e]))\<rparr>)
                  (addPatchedResource passingExternals ?mr sampleWorld))
                = NewResponse RuleStatusPass (PatchedResource ?mr) [] ''1 elements processed''"
    by (simp add: run_mutator run_sample)
  from mutateForEach_skip_iff_no_declaration [OF nofail,
      of sampleRule 0 sampleResource ?c "[JString ''a'', JString ''b'']" sampleWorld
         "sampleMutator [?c, ?e]" sampleWorld ?c "[?e]" "[JString ''a'', JString ''b'']"
         ?mr sampleWorld
         "NewResponse RuleStatusPass (PatchedResource ?mr) [] ''1 elements processed''"]
    f ev m' others
  have two: "Status (fst (mutateForEach passingExternals (sampleMutator [?c, ?e]) sampleWorld))
               = RuleStatusPass
     \<and> Patches (fst (mutateForEach passingExternals (sampleMutator [?c, ?e]) sampleWorld))
         = [''/items/a'', ''/items/b'']
     \<and> PatchedResource (fst (mutateForEach passingExternals (sampleMutator [?c, ?e]) sampleWorld))
         = PatchedResource ?mr
     \<and> Message (fst (mutateForEach passingExternals (sampleMutator [?c, ?e]) sampleWorld))
         = ''2 elements processed''"
    by simp
  have none: "fst (mutateForEach passingExternals (sampleMutator []) sampleWorld)
       = NewResponse RuleStatusSkip (unstructured sampleResource) [] ''0 elements processed''"
    using mutateForEach_skip_iff_no_declaration [OF nofail,
      of sampleRule 0 sampleResource ?c "[]" sampleWorld "sampleMutator []" sampleWorld]
    by (simp add: sampleMutator_def)
  have resp: "\<And>r :: Response. r = \<lparr>Status = Status r, PatchedResource = PatchedResource r,
                 Patches = Patches r, Message = Message r\<rparr>"
    by simp
  from two have "fst (mutateForEach passingExternals (sampleMutator [?c, ?e]) sampleWorld)
       = ?mr\<lparr>Message := ''2 elements processed''\<rparr>"
    by (subst resp) (simp add: NewResponse_def)
  with nofail f ev m none show ?thesis
    by (simp add: NewResponse_def sampleMutator_def)
qed

section \<open>Composition of the collected patches\<close>

lemma inj_patchKey: "inj patchKey"
proof (rule injI)
  fix p q :: JsonPatchOperation
  assume "patchKey p = patchKey q"
  then show "p = q" by (cases p, cases q) (simp add: patchKey_def)
qed

lemma composeSpec_set:
  assumes "set xs = set ys"
  shows "composeSpec xs = composeSpec ys"
proof -
  have "mset (remdups xs) = mset (sort_key patchKey (remdups ys))"
    using assms by (simp add: set_eq_iff_mset_remdups_eq)
  moreover have "inj_on patchKey (set (remdups xs))"
    using inj_patchKey by (rule inj_on_subset) simp
  moreover have "sorted (map patchKey (sort_key patchKey (remdups ys)))"
    by simp
  ultimately have "sort_key patchKey (remdups xs) = sort_key patchKey (remdups ys)"
    by (rule sort_key_inj_key_eq)
  then show ?thesis by (simp add: composeSpec_def)
qed

lemma composeSpec_idem: "composeSpec (composeSpec xs) = composeSpec xs"
proof -
  have "distinct (sort_key patchKey (remdups xs))" by simp
  then have r: "remdups (sort_key patchKey (remdups xs)) = sort_key patchKey (remdups xs)"
    by (rule distinct_remdups_id)
  have s: "sort_key patchKey (sort_key patchKey (remdups xs)) = sort_key patchKey (remdups xs)"
    by (rule sort_key_id_if_sorted) simp
  show ?thesis unfolding composeSpec_def r s by (rule refl)
qed

lemma convertPatches_decoded:
  "list_all (\<lambda>p. \<exists>jp. Unmarshal ext p = Inr jp) ps \<Longrightarrow>
     convertPatches ext ps acc = Inr (acc @ map (\<lambda>p. projr (Unmarshal ext p)) ps)"
  by (induction ps arbitrary: acc) auto

lemma composePatches_decoded:
  "list_all (\<lambda>p. \<exists>jp. Unmarshal ext p = Inr jp) ps \<Longrightarrow>
     composePatches ext ps
       = marshalPatches ext (FilterAndSortPatches ext (map (\<lambda>p. projr (Unmarshal ext p)) ps)) []"
  by (simp add: composePatches_def convertPatches_decoded)

text \<open>
  On raw patches that do not decode the composition of lines 135 to 151 is not a
  function of the set: the Error names the first such patch in the order of arrival.
\<close>

lemma composePatches_first_malformed:
  "Unmarshal ext p = Inl e \<Longrightarrow>
     composePatches ext (p # ps) = Inl (NewErrorResponse ''failed to convert patch'' (Some e))"
  by (simp add: composePatches_def)

lemma withComposeSpec_sel [simp]:
  "Unmarshal (withComposeSpec ext) = Unmarshal ext"
  "MarshalJSON (withComposeSpec ext) = MarshalJSON ext"
  "FilterAndSortPatches (withComposeSpec ext) = composeSpec"
  by (simp_all add: withComposeSpec_def)

text \<open>
  Claim C2. With the composer of the spec, composition depends on the set of the
  operations only: two sequences with the same operations, in any order and with any
  repetition, are composed into the same sequence, and composing a composed sequence
  changes nothing. In particular operations on the same path come out in the order of
  the composer, not in the order of arrival. In \<open>mutateElements\<close> (lines 135 to 151),
  with this composer, two arrangements of the same raw patches that all decode give
  the same result, byte for byte.
\<close>

theorem composition_depends_on_patch_set:
  "(set xs = set ys \<longrightarrow> composeSpec xs = composeSpec ys)
   \<and> composeSpec (composeSpec xs) = composeSpec xs
   \<and> (mset ps = mset qs \<and> list_all (\<lambda>p. \<exists>jp. Unmarshal ext p = Inr jp) ps \<longrightarrow>
        composePatches (withComposeSpec ext) ps = composePatches (withComposeSpec ext) qs)"
proof (intro conjI impI)
  assume "set xs = set ys"
  then show "composeSpec xs = composeSpec ys" by (rule composeSpec_set)
next
  show "composeSpec (composeSpec xs) = composeSpec xs" by (rule composeSpec_idem)
next
  assume a: "mset ps = mset qs \<and> list_all (\<lambda>p. \<exists>jp. Unmarshal ext p = Inr jp) ps"
  then have sets: "set ps = set qs" by (metis set_mset_mset)
  with a have dq: "list_all (\<lambda>p. \<exists>jp. Unmarshal ext p = Inr jp) qs"
    by (simp add: list_all_iff)
  from sets have "set (map (\<lambda>p. projr (Unmarshal ext p)) ps)
                    = set (map (\<lambda>p. projr (Unmarshal ext p)) qs)"
    by simp
  then have "composeSpec (map (\<lambda>p. projr (Unmarshal ext p)) ps)
               = composeSpec (map (\<lambda>p. projr (Unmarshal ext p)) qs)"
    by (rule composeSpec_set)
  with a dq show "composePatches (withComposeSpec ext) ps = composePatches (withComposeSpec ext) qs"
    by (simp add: composePatches_decoded)
qed

theorem composition_depends_on_patch_set_witness:
  "composeSpec
     [\<lparr>Operation = ''add'', Path = ''/spec/containers/1'', Value = ''b''\<rparr>,
      \<lparr>Operation = ''remove'', Path = ''/spec/volumes/0'', Value = []\<rparr>,
      \<lparr>Operation = ''add'', Path = ''/spec/containers/0'', Value = ''a''\<rparr>,
      \<lparr>Operation = ''remove'', Path = ''/spec/volumes/2'', Value = []\<rparr>,
      \<lparr>Operation = ''replace'', Path = ''/metadata/name'', Value = ''x''\<rparr>,
      \<lparr>Operation = ''replace'', Path = ''/metadata/name'', Value = ''w''\<rparr>,
      \<lparr>Operation = ''add'', Path = ''/spec/containers/1'', Value = ''b''\<rparr>]
   = [\<lparr>Operation = ''replace'', Path = ''/metadata/name'', Value = ''w''\<rparr>,
      \<lparr>Operation = ''replace'', Path = ''/metadata/name'', Value = ''x''\<rparr>,
      \<lparr>Operation = ''add'', Path = ''/spec/containers/0'', Value = ''a''\<rparr>,
      \<lparr>Operation = ''add'', Path = ''/spec/containers/1'', Value = ''b''\<rparr>,
      \<lparr>Operation = ''remove'', Path = ''/spec/volumes/2'', Value = []\<rparr>,
      \<lparr>Operation = ''remove'', Path = ''/spec/volumes/0'', Value = []\<rparr>]
   \<and> set [\<lparr>Operation = ''replace'', Path = ''/metadata/name'', Value = ''x''\<rparr>,
        \<lparr>Operation = ''replace'', Path = ''/metadata/name'', Value = ''w''\<rparr>]
     = set [\<lparr>Operation = ''replace'', Path = ''/metadata/name'', Value = ''w''\<rparr>,
            \<lparr>Operation = ''replace'', Path = ''/metadata/name'', Value = ''x''\<rparr>]
   \<and> composeSpec [\<lparr>Operation = ''replace'', Path = ''/metadata/name'', Value = ''x''\<rparr>,
                    \<lparr>Operation = ''replace'', Path = ''/metadata/name'', Value = ''w''\<rparr>]
     = composeSpec [\<lparr>Operation = ''replace'', Path = ''/metadata/name'', Value = ''w''\<rparr>,
                    \<lparr>Operation = ''replace'', Path = ''/metadata/name'', Value = ''x''\<rparr>]
   \<and> mset [''/items/b'', ''/items/a''] = mset [''/items/a'', ''/items/b'']
   \<and> list_all (\<lambda>p. \<exists>jp. Unmarshal sampleExternals p = Inr jp) [''/items/b'', ''/items/a'']
   \<and> composePatches (withComposeSpec sampleExternals) [''/items/b'', ''/items/a'']
     = composePatches (withComposeSpec sampleExternals) [''/items/a'', ''/items/b'']"
proof -
  have ex: "composeSpec
     [\<lparr>Operation = ''add'', Path = ''/spec/containers/1'', Value = ''b''\<rparr>,
      \<lparr>Operation = ''remove'', Path = ''/spec/volumes/0'', Value = []\<rparr>,
      \<lparr>Operation = ''add'', Path = ''/spec/containers/0'', Value = ''a''\<rparr>,
      \<lparr>Operation = ''remove'', Path = ''/spec/volumes/2'', Value = []\<rparr>,
      \<lparr>Operation = ''replace'', Path = ''/metadata/name'', Value = ''x''\<rparr>,
      \<lparr>Operation = ''replace'', Path = ''/metadata/name'', Value = ''w''\<rparr>,
      \<lparr>Operation = ''add'', Path = ''/spec/containers/1'', Value = ''b''\<rparr>]
   = [\<lparr>Operation = ''replace'', Path = ''/metadata/name'', Value = ''w''\<rparr>,
      \<lparr>Operation = ''replace'', Path = ''/metadata/name'', Value = ''x''\<rparr>,
      \<lparr>Operation = ''add'', Path = ''/spec/containers/0'', Value = ''a''\<rparr>,
      \<lparr>Operation = ''add'', Path = ''/spec/containers/1'', Value = ''b''\<rparr>,
      \<lparr>Operation = ''remove'', Path = ''/spec/volumes/2'', Value = []\<rparr>,
      \<lparr>Operation = ''remove'', Path = ''/spec/volumes/0'', Value = []\<rparr>]"
    by code_simp
  have s: "set [\<lparr>Operation = ''replace'', Path = ''/metadata/name'', Value = ''x''\<rparr>,
        \<lparr>Operation = ''replace'', Path = ''/metadata/name'', Value = ''w''\<rparr>]
     = set [\<lparr>Operation = ''replace'', Path = ''/metadata/name'', Value = ''w''\<rparr>,
            \<lparr>Operation = ''replace'', Path = ''/metadata/name'', Value = ''x''\<rparr>]"
    by auto
  have m: "mset [''/items/b'', ''/items/a''] = mset [''/items/a'', ''/items/b'']"
    by (simp add: add.commute)
  have d: "list_all (\<lambda>p. \<exists>jp. Unmarshal sampleExternals p = Inr jp) [''/items/b'', ''/items/a'']"
    by (simp add: sampleExternals_def)
  from composition_depends_on_patch_set
    [of "[\<lparr>Operation = ''replace'', Path = ''/metadata/name'', Value = ''x''\<rparr>,
          \<lparr>Operation = ''replace'', Path = ''/metadata/name'', Value = ''w''\<rparr>]"
        "[\<lparr>Operation = ''replace'', Path = ''/metadata/name'', Value = ''w''\<rparr>,
          \<lparr>Operation = ''replace'', Path = ''/metadata/name'', Value = ''x''\<rparr>]"
        "[''/items/b'', ''/items/a'']" "[''/items/a'', ''/items/b'']" sampleExternals]
    s m d ex
  show ?thesis by blast
qed

section \<open>The order of the elements\<close>

text \<open>
  The element loop goes through its list from the front: on a list \<open>xs @ ys\<close> it first
  runs on \<open>xs\<close>, and unless that returned early it goes on with \<open>ys\<close>, at the index
  after \<open>xs\<close> and with what \<open>xs\<close> has left.
\<close>

lemma mutateElements_loop_append:
  "mutateElements_loop ext r n fe i (xs @ ys) pr ap w
     = (case mutateElements_loop ext r n fe i xs pr ap w of
          (Inl early, w') \<Rightarrow> (Inl early, w')
        | (Inr (pr', ap'), w') \<Rightarrow>
            mutateElements_loop ext r n fe (i + length xs) ys pr' ap' w')"
proof (induction xs arbitrary: i pr ap w)
  case Nil
  show ?case by (simp add: mutateElements_loop.simps(1))
next
  case (Cons e xs)
  note step' = mutateElements_loop.simps(2) [of ext r n fe i _ "xs @ ys" pr ap w]
  show ?case
  proof (cases rule: mutateElements_loop_Cons_cases
      [where e = e and ext = ext and w = w and i = i and n = n and fe = fe and r = r
         and rest = xs and pr = pr and ap = ap])
    case nil
    with Cons.IH [of "i + 1" pr ap w] show ?thesis by (simp add: step' split: prod.splits sum.splits)
  next
    case (addElement err c1)
    then show ?thesis by (simp add: step' split: prod.splits sum.splits)
  next
    case (load err c1 c2)
    then show ?thesis by (simp add: step' split: prod.splits sum.splits)
  next
    case (preconditions err c1 c2)
    then show ?thesis by (simp add: step' split: prod.splits sum.splits)
  next
    case (skip c1 c2)
    with Cons.IH [of "i + 1" pr ap] show ?thesis by (simp add: step' split: prod.splits sum.splits)
  next
    case (deserialize err c1 c2 raw)
    then show ?thesis by (simp add: step' split: prod.splits sum.splits)
  next
    case (nested c1 c2 raw nestedForEach mutateResp w2)
    show ?thesis
    proof (cases "Status mutateResp = RuleStatusFail \<or> Status mutateResp = RuleStatusError")
      case True
      with nested show ?thesis by (simp add: step' split: prod.splits sum.splits)
    next
      case False
      with nested Cons.IH [of "i + 1" _ _ w2] show ?thesis by (simp add: step' split: prod.splits sum.splits)
    qed
  next
    case (single c1 c2 mutateResp)
    let ?mr = "ForEach ext (Name r) fe c2 (unstructured pr) e"
    note conc = single(7) [unfolded single(6)]
    show ?thesis
    proof (cases "Status ?mr = RuleStatusFail \<or> Status ?mr = RuleStatusError")
      case True
      with single(1-5) conc show ?thesis by (simp add: step' split: prod.splits sum.splits)
    next
      case False
      with single(1-5) conc Cons.IH [of "i + 1"] show ?thesis by (simp add: step' split: prod.splits sum.splits)
    qed
  qed
qed

lemma mutateElements_loop_folds:
  assumes add: "\<And>c e i. e \<in> set els \<Longrightarrow> fst (AddElementToContext ext c e i n) = None"
    and load: "\<And>c. fst (contextLoader ext (Context fe) c) = None"
    and pre: "\<And>c. CheckPreconditions ext c (AnyAllConditions fe) = Inr True"
    and single: "ForEachMutationRaw fe = None"
    and mut: "\<And>c u e. e \<in> set els \<Longrightarrow>
               Status (ForEach ext (Name r) fe c u e) = RuleStatusPass
               \<and> Patches (ForEach ext (Name r) fe c u e) \<noteq> []
               \<and> PatchedResource (ForEach ext (Name r) fe c u e) = step u e"
  shows "\<exists>ps w'. mutateElements_loop ext r n fe i els pr ap w
           = (Inr (pr\<lparr>unstructured := foldl step (unstructured pr) (filter (\<lambda>e. e \<noteq> JNull) els)\<rparr>,
                   ps), w')"
  using add mut
proof (induction els arbitrary: i pr ap w)
  case Nil
  show ?case by (simp add: mutateElements_loop.simps(1))
next
  case (Cons e els)
  have add': "\<And>c e i. e \<in> set els \<Longrightarrow> fst (AddElementToContext ext c e i n) = None"
    using Cons.prems(1) by simp
  have mut': "\<And>c u e. e \<in> set els \<Longrightarrow>
               Status (ForEach ext (Name r) fe c u e) = RuleStatusPass
               \<and> Patches (ForEach ext (Name r) fe c u e) \<noteq> []
               \<and> PatchedResource (ForEach ext (Name r) fe c u e) = step u e"
    using Cons.prems(2) by simp
  note IH = Cons.IH [OF add' mut']
  show ?case
  proof (cases "e = JNull")
    case True
    with IH [of "i + 1" pr ap w] show ?thesis
      by (simp add: mutateElements_loop.simps(2))
  next
    case False
    let ?w1 = "w\<lparr>jsonContext := Reset (jsonContext w)\<rparr>"
    obtain c1 where a: "AddElementToContext ext (jsonRaw (jsonContext ?w1)) e i n = (None, c1)"
      using Cons.prems(1) [of e "jsonRaw (jsonContext ?w1)" i]
      by (cases "AddElementToContext ext (jsonRaw (jsonContext ?w1)) e i n") simp
    obtain c2 where l: "contextLoader ext (Context fe) c1 = (None, c2)"
      using load [of c1] by (cases "contextLoader ext (Context fe) c1") simp
    let ?mr = "ForEach ext (Name r) fe c2 (unstructured pr) e"
    from Cons.prems(2) [of e c2 "unstructured pr"]
    have m: "Status ?mr = RuleStatusPass" "Patches ?mr \<noteq> []"
      "PatchedResource ?mr = step (unstructured pr) e"
      by simp_all
    have "mutateElements_loop ext r n fe i (e # els) pr ap w
            = mutateElements_loop ext r n fe (i + 1) els
                (pr\<lparr>unstructured := step (unstructured pr) e\<rparr>) (ap @ Patches ?mr)
                (writeBack ext c2 ?w1)"
      using False a l pre [of c2] single m
      by (simp add: mutateElements_loop.simps(2))
    with IH [of "i + 1" "pr\<lparr>unstructured := step (unstructured pr) e\<rparr>" "ap @ Patches ?mr"
        "writeBack ext c2 ?w1"] False
    show ?thesis by simp
  qed
qed

text \<open>
  Claim C3. The elements of a declaration are processed in reverse declared order when
  the declaration has a strategic-merge patch, and in declared order otherwise. The
  order is read off the resource: with a single-element mutator that passes, returns a
  patch and turns the resource \<open>u\<close> into \<open>step u e\<close> on the element \<open>e\<close>, the resource
  that \<open>mutateElements\<close> returns is the left fold of \<open>step\<close> over the non-nil elements,
  taken in reverse for a strategic-merge declaration. (The outcome is Pass unless the
  composition of the patches fails.)
\<close>

theorem strategic_merge_reverses_elements:
  assumes "\<And>c e i. e \<in> set els \<Longrightarrow> fst (AddElementToContext ext c e i n) = None"
    and "\<And>c. fst (contextLoader ext (Context fe) c) = None"
    and "\<And>c. CheckPreconditions ext c (AnyAllConditions fe) = Inr True"
    and "ForEachMutationRaw fe = None"
    and "\<And>c u e. e \<in> set els \<Longrightarrow>
           Status (ForEach ext (Name r) fe c u e) = RuleStatusPass
           \<and> Patches (ForEach ext (Name r) fe c u e) \<noteq> []
           \<and> PatchedResource (ForEach ext (Name r) fe c u e) = step u e"
  shows "(Status (fst (mutateElements ext r n res fe els w)) = RuleStatusPass
          \<or> Status (fst (mutateElements ext r n res fe els w)) = RuleStatusError)
       \<and> (Status (fst (mutateElements ext r n res fe els w)) = RuleStatusPass \<longrightarrow>
            PatchedResource (fst (mutateElements ext r n res fe els w))
              = foldl step (unstructured res)
                  (filter (\<lambda>e. e \<noteq> JNull)
                     (if RawPatchStrategicMerge fe \<noteq> None then rev els else els)))"
proof -
  let ?els = "if RawPatchStrategicMerge fe \<noteq> None then InvertedElement els else els"
  let ?w0 = "w\<lparr>jsonContext := Checkpoint (jsonContext w)\<rparr>"
  have mem: "set ?els = set els"
    by (simp add: InvertedElement_def)
  from mutateElements_loop_folds [of ?els ext n fe r step 0 res "[]" ?w0] assms mem
  obtain ps w' where
    loop: "mutateElements_loop ext r n fe 0 ?els res [] ?w0
             = (Inr (res\<lparr>unstructured := foldl step (unstructured res)
                                             (filter (\<lambda>e. e \<noteq> JNull) ?els)\<rparr>, ps), w')"
    by auto
  show ?thesis
  proof (cases "composePatches ext ps")
    case (Inl failed)
    with loop composePatches_error [OF Inl] show ?thesis
      by (simp add: mutateElements.simps Let_def)
  next
    case (Inr finalPatches)
    with loop show ?thesis
      by (simp add: mutateElements.simps Let_def InvertedElement_def)
  qed
qed

theorem strategic_merge_reverses_elements_witness:
  "PatchedResource (fst (mutateElements sampleExternals sampleRule 0 sampleResource
      (ForEachMutation ''containers'' [] JNull (Some (JObject [])) None)
      [JString ''a'', JNull, JString ''b''] sampleWorld))
     = \<lparr>Object = Some [(''kind'', JString ''Pod''), (''item'', JString ''b''),
                       (''item'', JString ''a'')]\<rparr>
   \<and> PatchedResource (fst (mutateElements sampleExternals sampleRule 0 sampleResource
      (ForEachMutation ''containers'' [] JNull None None)
      [JString ''a'', JNull, JString ''b''] sampleWorld))
     = \<lparr>Object = Some [(''kind'', JString ''Pod''), (''item'', JString ''a''),
                       (''item'', JString ''b'')]\<rparr>"
proof -
  let ?sm = "ForEachMutation ''containers'' [] JNull (Some (JObject [])) None"
  let ?jp = "ForEachMutation ''containers'' [] JNull None None"
  let ?els = "[JString ''a'', JNull, JString ''b'']"
  have add: "\<And>c e i. e \<in> set ?els \<Longrightarrow> fst (AddElementToContext sampleExternals c e i 0) = None"
    by (simp add: sampleExternals_def)
  have load: "\<And>c. fst (contextLoader sampleExternals (Context ?sm) c) = None"
    "\<And>c. fst (contextLoader sampleExternals (Context ?jp) c) = None"
    by (simp_all add: sampleExternals_def)
  have pre: "\<And>c. CheckPreconditions sampleExternals c (AnyAllConditions ?sm) = Inr True"
    "\<And>c. CheckPreconditions sampleExternals c (AnyAllConditions ?jp) = Inr True"
    by (simp_all add: sampleExternals_def)
  have single: "ForEachMutationRaw ?sm = None" "ForEachMutationRaw ?jp = None"
    by simp_all
  have mut: "\<And>c u e. e \<in> set ?els \<Longrightarrow>
           Status (ForEach sampleExternals (Name sampleRule) ?sm c u e) = RuleStatusPass
           \<and> Patches (ForEach sampleExternals (Name sampleRule) ?sm c u e) \<noteq> []
           \<and> PatchedResource (ForEach sampleExternals (Name sampleRule) ?sm c u e) = appendItem u e"
    "\<And>c u e. e \<in> set ?els \<Longrightarrow>
           Status (ForEach sampleExternals (Name sampleRule) ?jp c u e) = RuleStatusPass
           \<and> Patches (ForEach sampleExternals (Name sampleRule) ?jp c u e) \<noteq> []
           \<and> PatchedResource (ForEach sampleExternals (Name sampleRule) ?jp c u e) = appendItem u e"
    by (auto simp: sampleExternals_def)
  have st: "Status (fst (mutateElements sampleExternals sampleRule 0 sampleResource ?sm ?els
              sampleWorld)) = RuleStatusPass"
    "Status (fst (mutateElements sampleExternals sampleRule 0 sampleResource ?jp ?els
              sampleWorld)) = RuleStatusPass"
    by (simp_all add: run_mutator run_sample)
  from strategic_merge_reverses_elements [of ?els sampleExternals 0 ?sm sampleRule appendItem
      sampleResource sampleWorld, OF add load(1) pre(1) single(1) mut(1)] st(1)
  have sm: "PatchedResource (fst (mutateElements sampleExternals sampleRule 0 sampleResource
              ?sm ?els sampleWorld))
            = appendItem (appendItem (unstructured sampleResource) (JString ''b'')) (JString ''a'')"
    by simp
  from strategic_merge_reverses_elements [of ?els sampleExternals 0 ?jp sampleRule appendItem
      sampleResource sampleWorld, OF add load(2) pre(2) single(2) mut(2)] st(2)
  have jp: "PatchedResource (fst (mutateElements sampleExternals sampleRule 0 sampleResource
              ?jp ?els sampleWorld))
            = appendItem (appendItem (unstructured sampleResource) (JString ''a'')) (JString ''b'')"
    by simp
  show ?thesis
    unfolding sm jp by (simp add: appendItem_def sampleResource_def)
qed

section \<open>The checkpoint discipline\<close>

text \<open>
  The loop over the declarations and the loop over the elements leave the stack of
  checkpoints as they found it; \<open>mutateElements\<close> leaves the whole store as it found
  it. The three facts are proved together, along the mutual recursion.
\<close>

lemma Restore_Checkpoint:
  "jsonRawCheckpoints c' = jsonRawCheckpoints (Checkpoint c) \<Longrightarrow> Restore c' = c"
  by (simp add: Restore_def Checkpoint_def)

lemma context_discipline:
  "jsonRawCheckpoints (jsonContext (snd (mutateForEach_loop ext r n specs res k ap w)))
     = jsonRawCheckpoints (jsonContext w)"
  "jsonContext (snd (mutateElements ext r n res fe els w)) = jsonContext w"
  "jsonRawCheckpoints (jsonContext (snd (mutateElements_loop ext r n fe i els pr ap w)))
     = jsonRawCheckpoints (jsonContext w)"
proof (induction ext r n specs res k ap w and ext r n res fe els w and ext r n fe i els pr ap w
    rule: mutateForEach_loop_mutateElements_mutateElements_loop.induct)
  case (1 ext r n res k ap w)
  show ?case by (simp add: mutateForEach_loop.simps Let_def)
next
  case (2 ext r n fe rest res k ap w)
  show ?case
  proof (cases "EvaluateList ext (List fe) (jsonRaw (jsonContext w))")
    case (Inl err)
    then show ?thesis by (simp add: mutateForEach_loop.simps(2))
  next
    case (Inr els)
    obtain mr w1 where m: "mutateElements ext r n res fe els w = (mr, w1)"
      by (cases "mutateElements ext r n res fe els w")
    from "2.IH"(1) [OF Inr] m have ctx: "jsonContext w1 = jsonContext w"
      by simp
    show ?thesis
    proof (cases "Status mr = RuleStatusError")
      case True
      with Inr m ctx show ?thesis by (simp add: mutateForEach_loop.simps(2))
    next
      case noerr: False
      show ?thesis
      proof (cases "Status mr = RuleStatusSkip")
        case True
        from "2.IH"(3) [OF Inr refl m [symmetric] noerr] True Inr m ctx noerr
        show ?thesis by (simp add: mutateForEach_loop.simps(2) [of ext r n fe rest])
      next
        case False
        from "2.IH"(2) [OF Inr refl m [symmetric] noerr False] False Inr m ctx noerr
        show ?thesis by (simp add: mutateForEach_loop.simps(2) [of ext r n fe rest])
      qed
    qed
  qed
next
  case (3 ext r n res fe els w)
  show ?case
    using "3.IH"
    by (auto simp: mutateElements.simps [of ext r n res fe els w] Let_def
        split: prod.splits intro!: Restore_Checkpoint)
next
  case (4 ext r n fe i pr ap w)
  show ?case by (simp add: mutateElements_loop.simps)
next
  case (5 ext r n fe i e rest pr ap w)
  let ?w1 = "w\<lparr>jsonContext := Reset (jsonContext w)\<rparr>"
  show ?case
  proof (cases rule: mutateElements_loop_Cons_cases
      [where e = e and ext = ext and w = w and i = i and n = n and fe = fe and r = r
         and rest = rest and pr = pr and ap = ap])
    case nil
    then show ?thesis using "5.IH"(1) by simp
  next
    case (addElement err c1)
    then show ?thesis by simp
  next
    case (load err c1 c2)
    then show ?thesis by simp
  next
    case (preconditions err c1 c2)
    then show ?thesis by simp
  next
    case (skip c1 c2)
    from "5.IH"(2) [OF skip(1) refl skip(2) [symmetric] refl skip(3) [symmetric] refl skip(4)]
    show ?thesis by (simp add: skip(5))
  next
    case (deserialize err c1 c2 raw)
    then show ?thesis by simp
  next
    case (nested c1 c2 raw nestedForEach mutateResp w2)
    from "5.IH"(3) [OF nested(1) refl nested(2) [symmetric] refl nested(3) [symmetric] refl
        nested(4) _ nested(5) nested(6)] nested(7)
    have stack: "jsonRawCheckpoints (jsonContext w2) = jsonRawCheckpoints (jsonContext w)"
      by simp
    show ?thesis
    proof (cases "Status mutateResp = RuleStatusFail \<or> Status mutateResp = RuleStatusError")
      case True
      then show ?thesis by (simp add: nested(8) stack)
    next
      case False
      from "5.IH"(4) [OF nested(1) refl nested(2) [symmetric] refl nested(3) [symmetric] refl
          nested(4), of "(mutateResp, w2)" mutateResp w2] False nested(5,6,7)
      show ?thesis by (simp add: nested(8) stack)
    qed
  next
    case (single c1 c2 mutateResp)
    show ?thesis
    proof (cases "Status mutateResp = RuleStatusFail \<or> Status mutateResp = RuleStatusError")
      case True
      then show ?thesis by (simp add: single(7))
    next
      case False
      from "5.IH"(4) [OF single(1) refl single(2) [symmetric] refl single(3) [symmetric] refl
          single(4), of "(mutateResp, writeBack ext c2 ?w1)" mutateResp "writeBack ext c2 ?w1"]
        False
      show ?thesis by (simp add: single(5,7) single(6) [symmetric])
    qed
  qed
qed

lemma Reset_after_setBindings:
  "jsonRawCheckpoints (jsonContext w) \<noteq> [] \<Longrightarrow>
     (setBindings c w)\<lparr>jsonContext := Reset (jsonContext (setBindings c w))\<rparr>
       = w\<lparr>jsonContext := Reset (jsonContext w)\<rparr>"
  by (cases "jsonRawCheckpoints (jsonContext w)") (simp_all add: setBindings_def Reset_def)

lemma mutateElements_loop_ignores_bindings:
  "jsonRawCheckpoints (jsonContext w) \<noteq> [] \<Longrightarrow>
     fst (mutateElements_loop ext r n fe i els pr ap (setBindings c w))
       = fst (mutateElements_loop ext r n fe i els pr ap w)"
proof (induction els arbitrary: i)
  case Nil
  show ?case by (simp add: mutateElements_loop.simps(1))
next
  case (Cons e els)
  show ?case
  proof (cases "e = JNull")
    case True
    with Cons show ?thesis by (simp add: mutateElements_loop.simps(2))
  next
    case False
    have "mutateElements_loop ext r n fe i (e # els) pr ap (setBindings c w)
            = mutateElements_loop ext r n fe i (e # els) pr ap w"
      by (simp only: mutateElements_loop.simps(2) Reset_after_setBindings [OF Cons.prems] False if_False)
    then show ?thesis by simp
  qed
qed

text \<open>
  Claim C4. \<open>mutateElements\<close> takes a checkpoint before the loop and restores on every
  return: whatever the outcome, the context store (bindings and checkpoints) is after
  the call what it was before it, so nothing bound for an element reaches a sibling
  declaration. Inside the loop every element starts from the checkpoint: with a
  checkpoint on the stack, the outcome of the remaining elements does not depend on
  the bindings the elements before them left in the store.
\<close>

theorem mutateElements_restores_context:
  "jsonContext (snd (mutateElements ext r n res fe els w)) = jsonContext w
   \<and> (jsonRawCheckpoints (jsonContext w') \<noteq> [] \<longrightarrow>
        fst (mutateElements_loop ext r n fe i rest pr ap (setBindings c w'))
          = fst (mutateElements_loop ext r n fe i rest pr ap w'))"
  by (simp add: context_discipline(2) mutateElements_loop_ignores_bindings)

theorem mutateElements_restores_context_witness:
  "jsonContext (snd (mutateElements sampleExternals sampleRule 0 sampleResource
       (plainForEach ''mixed'' JNull) [JNull, JString ''reject'', JString ''c''] sampleWorld))
     = \<lparr>jsonRaw = [], jsonRawCheckpoints = []\<rparr>
   \<and> jsonRawCheckpoints (jsonContext (sampleWorld\<lparr>jsonContext := Checkpoint (jsonContext sampleWorld)\<rparr>)) \<noteq> []
   \<and> fst (mutateElements_loop sampleExternals sampleRule 0 (plainForEach ''mixed'' JNull)
            1 [JString ''b''] sampleResource []
            (setBindings [(''element'', JString ''a'')]
               (sampleWorld\<lparr>jsonContext := Checkpoint (jsonContext sampleWorld)\<rparr>)))
     = fst (mutateElements_loop sampleExternals sampleRule 0 (plainForEach ''mixed'' JNull)
            1 [JString ''b''] sampleResource []
            (sampleWorld\<lparr>jsonContext := Checkpoint (jsonContext sampleWorld)\<rparr>))"
  using mutateElements_restores_context [of sampleExternals sampleRule 0 sampleResource
      "plainForEach ''mixed'' JNull" "[JNull, JString ''reject'', JString ''c'']" sampleWorld
      "sampleWorld\<lparr>jsonContext := Checkpoint (jsonContext sampleWorld)\<rparr>"
      1 "[JString ''b'']" sampleResource "[]" "[(''element'', JString ''a'')]"]
  by (simp add: sampleWorld_def Checkpoint_def)

section \<open>Errors of the element evaluation at the rule level\<close>

text \<open>
  Claim C5 has every error reach the caller unchanged, with its message and its cause.
  On the code an error of \<open>mutateElements\<close> does end the rule in Error, but line 43
  builds a new outcome from the fixed message and from \<open>err\<close>, the variable of the list
  evaluation, which is nil at that point: the message and the cause of the error are
  dropped. Here the context of the declaration cannot be loaded.
\<close>

theorem element_error_loses_cause:
  "fst (mutateElements sampleExternals sampleRule 0 sampleResource
          (ForEachMutation ''containers'' [JString ''configmap''] JNull None None)
          [JString ''a'', JString ''b''] sampleWorld)
     = NewErrorResponse ''failed to load to mutate.foreach[0].context''
         (Some ''context entry not found'')
   \<and> Message (fst (mutateElements sampleExternals sampleRule 0 sampleResource
          (ForEachMutation ''containers'' [JString ''configmap''] JNull None None)
          [JString ''a'', JString ''b''] sampleWorld))
     = ''failed to load to mutate.foreach[0].context: context entry not found''
   \<and> fst (mutateForEach sampleExternals
          (sampleMutator [ForEachMutation ''containers'' [JString ''configmap''] JNull None None])
          sampleWorld)
     = NewErrorResponse ''failed to mutate elements'' None
   \<and> Message (fst (mutateForEach sampleExternals
          (sampleMutator [ForEachMutation ''containers'' [JString ''configmap''] JNull None None])
          sampleWorld))
     = ''failed to mutate elements''"
  by (simp add: run_mutator run_sample)

text \<open>
  In general: whatever Error \<open>mutateElements\<close> returns, the rule returns the same fixed
  outcome, without a cause.
\<close>

lemma mutateElements_error_replaced:
  assumes "EvaluateList ext (List fe) (jsonRaw (jsonContext w)) = Inr els"
    and "Status (fst (mutateElements ext r n res fe els w)) = RuleStatusError"
  shows "fst (mutateForEach_loop ext r n (fe # rest) res k ap w)
           = NewErrorResponse ''failed to mutate elements'' None"
proof -
  obtain mr w1 where m: "mutateElements ext r n res fe els w = (mr, w1)"
    by (cases "mutateElements ext r n res fe els w")
  with assms show ?thesis by (simp add: mutateForEach_loop.simps(2))
qed

section \<open>A Fail of an element at the rule level\<close>

text \<open>
  Claim C6 has a Fail of an element end the declaration and the rule. On the code
  \<open>mutateElements\<close> returns the Fail at once, but \<open>mutateForEach\<close> tests for Error
  only: the declaration counts as applied and the rule ends in Pass. Here the list is
  null, \<open>reject\<close>, \<open>c\<close>, and the mutator answers Fail on \<open>reject\<close>; the same happens when
  the Fail comes from a nested declaration.
\<close>

theorem element_fail_reported_as_pass:
  "fst (mutateElements sampleExternals sampleRule 0 sampleResource
          (plainForEach ''mixed'' JNull) [JNull, JString ''reject'', JString ''c''] sampleWorld)
     = NewResponse RuleStatusFail (unstructured sampleResource) [] ''rejected''
   \<and> fst (mutateForEach sampleExternals (sampleMutator [plainForEach ''mixed'' JNull])
          sampleWorld)
     = NewResponse RuleStatusPass (unstructured sampleResource) [] ''1 elements processed''
   \<and> fst (mutateForEach sampleExternals
          (sampleMutator [ForEachMutation ''containers'' [] JNull None
             (Some (ForEachArray [plainForEach ''mixed'' JNull]))])
          sampleWorld)
     = NewResponse RuleStatusPass (unstructured sampleResource) [] ''1 elements processed''"
  by (simp add: run_mutator run_sample)

text \<open>
  In general: when \<open>mutateElements\<close> returns a Fail, the loop over the declarations
  counts the declaration as applied and goes on with the next one.
\<close>

lemma mutateElements_fail_counted_as_applied:
  assumes "EvaluateList ext (List fe) (jsonRaw (jsonContext w)) = Inr els"
    and "mutateElements ext r n res fe els w = (mr, w1)"
    and "Status mr = RuleStatusFail"
  shows "mutateForEach_loop ext r n (fe # rest) res k ap w
           = mutateForEach_loop ext r n rest
               (if length (Patches mr) > 0 then res\<lparr>unstructured := PatchedResource mr\<rparr> else res)
               (k + 1)
               (if length (Patches mr) > 0 then ap @ Patches mr else ap)
               (addPatchedResource ext mr w1)"
  using assms by (simp add: mutateForEach_loop.simps(2))

section \<open>A list that cannot be evaluated\<close>

lemma mutateForEach_loop_list_failure:
  assumes "\<forall>c. \<exists>e. EvaluateList ext (List fe) c = Inl e"
  shows "fe \<in> set specs \<Longrightarrow>
           Status (fst (mutateForEach_loop ext r n specs res k ap w)) = RuleStatusError
           \<and> Patches (fst (mutateForEach_loop ext r n specs res k ap w)) = []
           \<and> PatchedResource (fst (mutateForEach_loop ext r n specs res k ap w))
               = emptyUnstructured"
proof (induction specs arbitrary: res k ap w)
  case Nil
  then show ?case by simp
next
  case (Cons fe' specs)
  note step = mutateForEach_loop.simps(2) [of ext r n fe' specs res k ap w]
  show ?case
  proof (cases "EvaluateList ext (List fe') (jsonRaw (jsonContext w))")
    case (Inl err)
    then show ?thesis by (simp add: step)
  next
    case (Inr els)
    have "fe' \<noteq> fe"
    proof
      assume "fe' = fe"
      with Inr have "EvaluateList ext (List fe) (jsonRaw (jsonContext w)) = Inr els"
        by simp
      moreover from assms obtain e where
        "EvaluateList ext (List fe) (jsonRaw (jsonContext w)) = Inl e"
        by blast
      ultimately show False by simp
    qed
    with Cons.prems have mem: "fe \<in> set specs" by simp
    obtain mr w1 where m: "mutateElements ext r n res fe' els w = (mr, w1)"
      by (cases "mutateElements ext r n res fe' els w")
    show ?thesis
    proof (cases "Status mr = RuleStatusError")
      case True
      with Inr m show ?thesis by (simp add: step)
    next
      case False
      with Inr m Cons.IH [OF mem] show ?thesis by (simp add: step)
    qed
  qed
qed

text \<open>
  Claim C7. When the list of a declaration cannot be evaluated, the loop over the
  declarations returns at once, whatever count, resource and patches the declarations
  before it have left: the outcome is an Error that names the list and the cause and
  carries no patch and no resource, and the world is left as it was. Hence a rule with
  a declaration whose list cannot be evaluated ends in Error with no patch, wherever
  the declaration stands.
\<close>

theorem list_evaluation_failure_is_fatal:
  "(EvaluateList ext (List fe) (jsonRaw (jsonContext w)) = Inl e \<longrightarrow>
      mutateForEach_loop ext r n (fe # rest) res k ap w
        = (NewErrorResponse (''failed to evaluate list '' @ List fe @ '': '' @ e) (Some e), w)
      \<and> Patches (fst (mutateForEach_loop ext r n (fe # rest) res k ap w)) = [])
   \<and> ((\<forall>c. \<exists>e. EvaluateList ext (List fe) c = Inl e) \<and> fe \<in> set (foreach f) \<longrightarrow>
      Status (fst (mutateForEach ext f w)) = RuleStatusError
      \<and> Patches (fst (mutateForEach ext f w)) = []
      \<and> PatchedResource (fst (mutateForEach ext f w)) = emptyUnstructured)"
  using mutateForEach_loop_list_failure [of ext fe "foreach f" "rule f" "nesting f" "resource f" 0 "[]" w]
  by (simp add: mutateForEach_loop.simps(2) mutateForEach_def)

theorem list_evaluation_failure_is_fatal_witness:
  "(\<forall>c. \<exists>e. EvaluateList sampleExternals (List (plainForEach ''missing'' JNull)) c = Inl e)
   \<and> plainForEach ''missing'' JNull
        \<in> set (foreach (sampleMutator [plainForEach ''containers'' JNull,
                   plainForEach ''missing'' JNull, plainForEach ''empty'' JNull]))
   \<and> fst (mutateForEach sampleExternals
        (sampleMutator [plainForEach ''containers'' JNull, plainForEach ''missing'' JNull,
           plainForEach ''empty'' JNull]) sampleWorld)
     = NewErrorResponse ''failed to evaluate list missing: invalid expression''
         (Some ''invalid expression'')
   \<and> Patches (fst (mutateForEach sampleExternals
        (sampleMutator [plainForEach ''containers'' JNull, plainForEach ''missing'' JNull,
           plainForEach ''empty'' JNull]) sampleWorld)) = []
   \<and> Patches (fst (mutateForEach sampleExternals
        (sampleMutator [plainForEach ''containers'' JNull]) sampleWorld))
     = [''/items/a'', ''/items/b'']"
  using list_evaluation_failure_is_fatal [of sampleExternals "plainForEach ''missing'' JNull"
      sampleWorld "''invalid expression''" sampleRule 0 "[]" sampleResource 0 "[]"
      "sampleMutator [plainForEach ''containers'' JNull, plainForEach ''missing'' JNull,
           plainForEach ''empty'' JNull]"]
  by (simp add: run_mutator run_sample)

section \<open>Preconditions of an element\<close>





section \<open>The rule response builder\<close>

text \<open>
  Claim C9. The rule response carries the patch set of the outcome, and the patched
  target when the rule declares targets, exactly when the outcome's status is Pass; on
  Pass its message is built from the patched resource (kind and name, and the
  namespace clause unless the namespace is empty; a resource without an object gives
  "mutated resource"); on any other status the message of the outcome is kept.
\<close>

theorem buildRuleResponse_pass_only:
  "status (buildRuleResponse r resp info) = Status resp
   \<and> name (buildRuleResponse r resp info) = Name r
   \<and> patches (buildRuleResponse r resp info)
       = (if Status resp = RuleStatusPass then Patches resp else [])
   \<and> patchedTarget (buildRuleResponse r resp info)
       = (if Status resp = RuleStatusPass \<and> Targets r \<noteq> []
          then Some (PatchedResource resp) else None)
   \<and> (if Status resp = RuleStatusPass \<and> Targets r \<noteq> []
      then patchedTargetParentResourceGVR (buildRuleResponse r resp info) = parentResourceGVR info
           \<and> patchedTargetSubresourceName (buildRuleResponse r resp info) = subresource info
      else patchedTargetSubresourceName (buildRuleResponse r resp info) = [])
   \<and> message (buildRuleResponse r resp info)
       = (if Status resp \<noteq> RuleStatusPass then Message resp
          else if Object (PatchedResource resp) = None then ''mutated resource''
          else ''mutated '' @ GetKind (PatchedResource resp) @ ''/''
                 @ GetName (PatchedResource resp)
                 @ (if GetNamespace (PatchedResource resp) = [] then []
                    else '' in namespace '' @ GetNamespace (PatchedResource resp)))"
  by (simp add: buildRuleResponse_def buildSuccessMessage_def NewRuleResponse_def
      WithPatches_def WithPatchedTarget_def Let_def)

theorem buildRuleResponse_pass_only_witness:
  "message (buildRuleResponse \<lparr>Name = ''r1'', Targets = []\<rparr>
      (NewResponse RuleStatusPass
         \<lparr>Object = Some [(''kind'', JString ''Pod''),
                         (''metadata'', JObject [(''name'', JString ''nginx'')])]\<rparr>
         [''p''] [])
      \<lparr>unstructured = emptyUnstructured, subresource = [],
         parentResourceGVR = \<lparr>Group = [], Version = [], Resource = []\<rparr>\<rparr>)
     = ''mutated Pod/nginx''
   \<and> patches (buildRuleResponse \<lparr>Name = ''r1'', Targets = []\<rparr>
      (NewResponse RuleStatusSkip emptyUnstructured [''p''] ''0 elements processed'')
      \<lparr>unstructured = emptyUnstructured, subresource = [],
         parentResourceGVR = \<lparr>Group = [], Version = [], Resource = []\<rparr>\<rparr>) = []"
  using buildRuleResponse_pass_only [of "\<lparr>Name = ''r1'', Targets = []\<rparr>"
      "NewResponse RuleStatusPass
         \<lparr>Object = Some [(''kind'', JString ''Pod''),
                         (''metadata'', JObject [(''name'', JString ''nginx'')])]\<rparr>
         [''p''] []"]
    buildRuleResponse_pass_only [of "\<lparr>Name = ''r1'', Targets = []\<rparr>"
      "NewResponse RuleStatusSkip emptyUnstructured [''p''] ''0 elements processed''"]
  by (simp add: NewResponse_def GetKind_def GetName_def GetNamespace_def getNestedString_def)

section \<open>Adding the patched resource to the context\<close>

lemma ignoreAddResourceError_sel [simp]:
  "EvaluateList (ignoreAddResourceError ext) = EvaluateList ext"
  "AddElementToContext (ignoreAddResourceError ext) = AddElementToContext ext"
  "contextLoader (ignoreAddResourceError ext) = contextLoader ext"
  "CheckPreconditions (ignoreAddResourceError ext) = CheckPreconditions ext"
  "ForEach (ignoreAddResourceError ext) = ForEach ext"
  "Unmarshal (ignoreAddResourceError ext) = Unmarshal ext"
  "FilterAndSortPatches (ignoreAddResourceError ext) = FilterAndSortPatches ext"
  "MarshalJSON (ignoreAddResourceError ext) = MarshalJSON ext"
  "CopySharesJSONContext (ignoreAddResourceError ext) = CopySharesJSONContext ext"
  "AddResource (ignoreAddResourceError ext) c obj = (None, snd (AddResource ext c obj))"
  by (simp_all add: ignoreAddResourceError_def)

lemma convertPatches_ignoreAddResourceError [simp]:
  "convertPatches (ignoreAddResourceError ext) ps acc = convertPatches ext ps acc"
  by (induction ps arbitrary: acc) (simp_all split: sum.splits)

lemma marshalPatches_ignoreAddResourceError [simp]:
  "marshalPatches (ignoreAddResourceError ext) ps acc = marshalPatches ext ps acc"
  by (induction ps arbitrary: acc) (simp_all split: sum.splits)

lemma composePatches_ignoreAddResourceError [simp]:
  "composePatches (ignoreAddResourceError ext) ps = composePatches ext ps"
  by (simp add: composePatches_def cong: sum.case_cong)

lemma jsonContext_writeBack_cong:
  "jsonContext w' = jsonContext w \<Longrightarrow>
     jsonContext (writeBack (ignoreAddResourceError ext) c w') = jsonContext (writeBack ext c w)"
  by (simp add: writeBack_def setBindings_def)

lemma jsonContext_addPatchedResource_cong:
  "jsonContext w' = jsonContext w \<Longrightarrow>
     jsonContext (addPatchedResource (ignoreAddResourceError ext) mr w')
       = jsonContext (addPatchedResource ext mr w)"
  by (simp add: addPatchedResource_def setBindings_def logInfo_def Let_def
      split: prod.splits option.splits)

text \<open>
  Started in worlds with the same context store, the mutator gives the same outcomes
  and leaves the same context store with either \<^verbatim>\<open>AddResource\<close>; only the logs differ.
\<close>

lemma AddResource_error_not_observed:
  "\<forall>w'. jsonContext w' = jsonContext w \<longrightarrow>
     fst (mutateForEach_loop (ignoreAddResourceError ext) r n specs res k ap w')
       = fst (mutateForEach_loop ext r n specs res k ap w)
     \<and> jsonContext (snd (mutateForEach_loop (ignoreAddResourceError ext) r n specs res k ap w'))
       = jsonContext (snd (mutateForEach_loop ext r n specs res k ap w))"
  "\<forall>w'. jsonContext w' = jsonContext w \<longrightarrow>
     fst (mutateElements (ignoreAddResourceError ext) r n res fe els w')
       = fst (mutateElements ext r n res fe els w)
     \<and> jsonContext (snd (mutateElements (ignoreAddResourceError ext) r n res fe els w'))
       = jsonContext (snd (mutateElements ext r n res fe els w))"
  "\<forall>w'. jsonContext w' = jsonContext w \<longrightarrow>
     fst (mutateElements_loop (ignoreAddResourceError ext) r n fe i els pr ap w')
       = fst (mutateElements_loop ext r n fe i els pr ap w)
     \<and> jsonContext (snd (mutateElements_loop (ignoreAddResourceError ext) r n fe i els pr ap w'))
       = jsonContext (snd (mutateElements_loop ext r n fe i els pr ap w))"
proof (induction ext r n specs res k ap w and ext r n res fe els w and ext r n fe i els pr ap w
    rule: mutateForEach_loop_mutateElements_mutateElements_loop.induct)
  case (1 ext r n res k ap w)
  show ?case by (simp add: mutateForEach_loop.simps(1) Let_def)
next
  case (2 ext r n fe rest res k ap w)
  show ?case
  proof (intro allI impI)
    fix w' :: "'a world"
    assume same: "jsonContext w' = jsonContext w"
    let ?ext' = "ignoreAddResourceError ext"
    note step = mutateForEach_loop.simps(2) [of ext r n fe rest res k ap w]
    note step' = mutateForEach_loop.simps(2) [of ?ext' r n fe rest res k ap w']
    show "fst (mutateForEach_loop ?ext' r n (fe # rest) res k ap w')
            = fst (mutateForEach_loop ext r n (fe # rest) res k ap w)
          \<and> jsonContext (snd (mutateForEach_loop ?ext' r n (fe # rest) res k ap w'))
            = jsonContext (snd (mutateForEach_loop ext r n (fe # rest) res k ap w))"
    proof (cases "EvaluateList ext (List fe) (jsonRaw (jsonContext w))")
      case (Inl err)
      with same show ?thesis by (simp add: step step')
    next
      case (Inr els)
      obtain mr w1 where m: "mutateElements ext r n res fe els w = (mr, w1)"
        by (cases "mutateElements ext r n res fe els w")
      obtain mr' w1' where m': "mutateElements ?ext' r n res fe els w' = (mr', w1')"
        by (cases "mutateElements ?ext' r n res fe els w'")
      from "2.IH"(1) [OF Inr] same m m' have eq: "mr' = mr" "jsonContext w1' = jsonContext w1"
        by auto
      show ?thesis
      proof (cases "Status mr = RuleStatusError")
        case True
        with Inr same m m' eq show ?thesis by (simp add: step step')
      next
        case noerr: False
        show ?thesis
        proof (cases "Status mr = RuleStatusSkip")
          case True
          from "2.IH"(3) [OF Inr refl m [symmetric] noerr] True eq(2)
          have "fst (mutateForEach_loop ?ext' r n rest res k ap w1')
                  = fst (mutateForEach_loop ext r n rest res k ap w1)
                \<and> jsonContext (snd (mutateForEach_loop ?ext' r n rest res k ap w1'))
                  = jsonContext (snd (mutateForEach_loop ext r n rest res k ap w1))"
            by simp
          with Inr same m m' eq noerr True show ?thesis by (simp add: step step')
        next
          case False
          let ?res = "if 0 < length (Patches mr) then res\<lparr>unstructured := PatchedResource mr\<rparr>
                      else res"
          let ?ap = "if 0 < length (Patches mr) then ap @ Patches mr else ap"
          from "2.IH"(2) [OF Inr refl m [symmetric] noerr False]
            jsonContext_addPatchedResource_cong [OF eq(2), of ext mr]
          have "fst (mutateForEach_loop ?ext' r n rest ?res (k + 1) ?ap
                       (addPatchedResource ?ext' mr w1'))
                  = fst (mutateForEach_loop ext r n rest ?res (k + 1) ?ap
                           (addPatchedResource ext mr w1))
                \<and> jsonContext (snd (mutateForEach_loop ?ext' r n rest ?res (k + 1) ?ap
                       (addPatchedResource ?ext' mr w1')))
                  = jsonContext (snd (mutateForEach_loop ext r n rest ?res (k + 1) ?ap
                           (addPatchedResource ext mr w1)))"
            by blast
          with Inr same m m' eq noerr False show ?thesis by (simp add: step step')
        qed
      qed
    qed
  qed
next
  case (3 ext r n res fe els w)
  show ?case
  proof (intro allI impI)
    fix w' :: "'a world"
    assume same: "jsonContext w' = jsonContext w"
    let ?ext' = "ignoreAddResourceError ext"
    let ?els = "if RawPatchStrategicMerge fe \<noteq> None then InvertedElement els else els"
    let ?w0 = "w\<lparr>jsonContext := Checkpoint (jsonContext w)\<rparr>"
    let ?w0' = "w'\<lparr>jsonContext := Checkpoint (jsonContext w')\<rparr>"
    obtain lr w1 where l: "mutateElements_loop ext r n fe 0 ?els res [] ?w0 = (lr, w1)"
      by (cases "mutateElements_loop ext r n fe 0 ?els res [] ?w0")
    obtain lr' w1' where l': "mutateElements_loop ?ext' r n fe 0 ?els res [] ?w0' = (lr', w1')"
      by (cases "mutateElements_loop ?ext' r n fe 0 ?els res [] ?w0'")
    from "3.IH" [OF refl refl, rule_format, of ?w0'] same l l'
    have eq: "lr' = lr" "jsonContext w1' = jsonContext w1"
      by auto
    from l l' eq
    show "fst (mutateElements ?ext' r n res fe els w') = fst (mutateElements ext r n res fe els w)
          \<and> jsonContext (snd (mutateElements ?ext' r n res fe els w'))
            = jsonContext (snd (mutateElements ext r n res fe els w))"
      by (simp add: mutateElements.simps Let_def split: sum.splits prod.splits)
  qed
next
  case (4 ext r n fe i pr ap w)
  show ?case by (simp add: mutateElements_loop.simps(1))
next
  case (5 ext r n fe i e rest pr ap w)
  show ?case
  proof (intro allI impI)
    fix w' :: "'a world"
    assume same: "jsonContext w' = jsonContext w"
    let ?ext' = "ignoreAddResourceError ext"
    let ?w1 = "w\<lparr>jsonContext := Reset (jsonContext w)\<rparr>"
    let ?w1' = "w'\<lparr>jsonContext := Reset (jsonContext w')\<rparr>"
    have same1: "jsonContext ?w1' = jsonContext ?w1"
      using same by simp
    note step' = mutateElements_loop.simps(2) [of ?ext' r n fe i _ rest pr ap w']
    show "fst (mutateElements_loop ?ext' r n fe i (e # rest) pr ap w')
            = fst (mutateElements_loop ext r n fe i (e # rest) pr ap w)
          \<and> jsonContext (snd (mutateElements_loop ?ext' r n fe i (e # rest) pr ap w'))
            = jsonContext (snd (mutateElements_loop ext r n fe i (e # rest) pr ap w))"
    proof (cases rule: mutateElements_loop_Cons_cases
        [where e = e and ext = ext and w = w and i = i and n = n and fe = fe and r = r
           and rest = rest and pr = pr and ap = ap])
      case nil
      with "5.IH"(1) same show ?thesis by (simp add: step')
    next
      case (addElement err c1)
      with same jsonContext_writeBack_cong [OF same1, of ext c1]
      show ?thesis by (simp add: step')
    next
      case (load err c1 c2)
      with same jsonContext_writeBack_cong [OF same1, of ext c2]
      show ?thesis by (simp add: step')
    next
      case (preconditions err c1 c2)
      with same jsonContext_writeBack_cong [OF same1, of ext c2]
      show ?thesis by (simp add: step')
    next
      case (skip c1 c2)
      let ?v = "logInfo ''mutate.foreach.preconditions not met'' [(''elementIndex'', LogInt i)]
                  (writeBack ext c2 ?w1)"
      let ?v' = "logInfo ''mutate.foreach.preconditions not met'' [(''elementIndex'', LogInt i)]
                  (writeBack ?ext' c2 ?w1')"
      have "jsonContext ?v' = jsonContext ?v"
        using jsonContext_writeBack_cong [OF same1, of ext c2] by simp
      with "5.IH"(2) [OF skip(1) refl skip(2) [symmetric] refl skip(3) [symmetric] refl skip(4)]
      have "fst (mutateElements_loop ?ext' r n fe (i + 1) rest pr ap ?v')
              = fst (mutateElements_loop ext r n fe (i + 1) rest pr ap ?v)
            \<and> jsonContext (snd (mutateElements_loop ?ext' r n fe (i + 1) rest pr ap ?v'))
              = jsonContext (snd (mutateElements_loop ext r n fe (i + 1) rest pr ap ?v))"
        by simp
      with skip same show ?thesis by (simp add: step')
    next
      case (deserialize err c1 c2 raw)
      with same jsonContext_writeBack_cong [OF same1, of ext c2]
      show ?thesis by (simp add: step')
    next
      case (nested c1 c2 raw nestedForEach mutateResp w2)
      obtain mutateResp' w2' where
        nested': "mutateForEach_loop ?ext' r (n + 1) nestedForEach pr 0 []
                    (writeBack ?ext' c2 ?w1') = (mutateResp', w2')"
        by (cases "mutateForEach_loop ?ext' r (n + 1) nestedForEach pr 0 []
                     (writeBack ?ext' c2 ?w1')")
      from "5.IH"(3) [OF nested(1) refl nested(2) [symmetric] refl nested(3) [symmetric] refl
          nested(4) _ nested(5) nested(6)]
        jsonContext_writeBack_cong [OF same1, of ext c2] nested(7) nested'
      have eq: "mutateResp' = mutateResp" "jsonContext w2' = jsonContext w2"
        by auto
      show ?thesis
      proof (cases "Status mutateResp = RuleStatusFail \<or> Status mutateResp = RuleStatusError")
        case True
        with nested nested' eq same show ?thesis by (simp add: step')
      next
        case False
        let ?pr = "if 0 < length (Patches mutateResp)
                   then pr\<lparr>unstructured := PatchedResource mutateResp\<rparr> else pr"
        let ?ap = "if 0 < length (Patches mutateResp) then ap @ Patches mutateResp else ap"
        from "5.IH"(4) [OF nested(1) refl nested(2) [symmetric] refl nested(3) [symmetric] refl
            nested(4), of "(mutateResp, w2)" mutateResp w2] False nested(5,6,7) eq(2)
        have "fst (mutateElements_loop ?ext' r n fe (i + 1) rest ?pr ?ap w2')
                = fst (mutateElements_loop ext r n fe (i + 1) rest ?pr ?ap w2)
              \<and> jsonContext (snd (mutateElements_loop ?ext' r n fe (i + 1) rest ?pr ?ap w2'))
                = jsonContext (snd (mutateElements_loop ext r n fe (i + 1) rest ?pr ?ap w2))"
          by simp
        with nested nested' eq same False show ?thesis by (simp add: step')
      qed
    next
      case (single c1 c2 mutateResp)
      let ?mr = "ForEach ext (Name r) fe c2 (unstructured pr) e"
      note conc = single(7) [unfolded single(6)]
      show ?thesis
      proof (cases "Status ?mr = RuleStatusFail \<or> Status ?mr = RuleStatusError")
        case True
        with single(1-5) conc same jsonContext_writeBack_cong [OF same1, of ext c2]
        show ?thesis by (simp add: step')
      next
        case False
        let ?pr = "if 0 < length (Patches ?mr) then pr\<lparr>unstructured := PatchedResource ?mr\<rparr>
                   else pr"
        let ?ap = "if 0 < length (Patches ?mr) then ap @ Patches ?mr else ap"
        from "5.IH"(4) [OF single(1) refl single(2) [symmetric] refl single(3) [symmetric] refl
            single(4), of "(?mr, writeBack ext c2 ?w1)" ?mr "writeBack ext c2 ?w1"]
          False single(5) jsonContext_writeBack_cong [OF same1, of ext c2]
        have "fst (mutateElements_loop ?ext' r n fe (i + 1) rest ?pr ?ap (writeBack ?ext' c2 ?w1'))
                = fst (mutateElements_loop ext r n fe (i + 1) rest ?pr ?ap (writeBack ext c2 ?w1))
              \<and> jsonContext (snd (mutateElements_loop ?ext' r n fe (i + 1) rest ?pr ?ap
                    (writeBack ?ext' c2 ?w1')))
                = jsonContext (snd (mutateElements_loop ext r n fe (i + 1) rest ?pr ?ap
                    (writeBack ext c2 ?w1)))"
          by simp
        with single(1-5) conc same False show ?thesis by (simp add: step')
      qed
    qed
  qed
qed

text \<open>
  Claim C10. After a declaration whose evaluation did not end in Error, the loop goes
  on with the world in which the patched resource has been added to the JSON context.
  When \<^verbatim>\<open>AddResource\<close> fails there, the failure is written to the log and that is all:
  with collaborators that differ only in that \<^verbatim>\<open>AddResource\<close> reports no error (and
  leaves the same bindings), the rule ends in the same outcome (status, resource,
  patches and message) and in the same context store.
\<close>

theorem AddResource_failure_only_logged:
  "fst (mutateForEach (ignoreAddResourceError ext) f w) = fst (mutateForEach ext f w)
   \<and> jsonContext (snd (mutateForEach (ignoreAddResourceError ext) f w))
       = jsonContext (snd (mutateForEach ext f w))
   \<and> (AddResource ext (jsonRaw (jsonContext w1)) (Object (PatchedResource mr)) = (Some err, c) \<longrightarrow>
        addPatchedResource ext mr w1
          = w1\<lparr>jsonContext := (jsonContext w1)\<lparr>jsonRaw := c\<rparr>,
               logger := logger w1
                 @ [LogInfo ''mutateResp.PatchedResource'' [(''resource'', LogResource (PatchedResource mr))],
                    LogError err ''failed to update resource in context'']\<rparr>)
   \<and> (EvaluateList ext (List fe) (jsonRaw (jsonContext w)) = Inr els
        \<and> mutateElements ext r n res fe els w = (mr, w1) \<and> Status mr \<noteq> RuleStatusError \<longrightarrow>
        mutateForEach_loop ext r n (fe # rest) res k ap w
          = mutateForEach_loop ext r n rest
              (if length (Patches mr) > 0 then res\<lparr>unstructured := PatchedResource mr\<rparr> else res)
              (k + 1)
              (if length (Patches mr) > 0 then ap @ Patches mr else ap)
              (addPatchedResource ext mr w1))"
proof (intro conjI impI)
  show "fst (mutateForEach (ignoreAddResourceError ext) f w) = fst (mutateForEach ext f w)"
    using AddResource_error_not_observed(1) [of w ext "rule f" "nesting f" "foreach f" "resource f" 0 "[]"]
    by (simp add: mutateForEach_def)
  show "jsonContext (snd (mutateForEach (ignoreAddResourceError ext) f w))
          = jsonContext (snd (mutateForEach ext f w))"
    using AddResource_error_not_observed(1) [of w ext "rule f" "nesting f" "foreach f" "resource f" 0 "[]"]
    by (simp add: mutateForEach_def)
next
  assume "AddResource ext (jsonRaw (jsonContext w1)) (Object (PatchedResource mr)) = (Some err, c)"
  then show "addPatchedResource ext mr w1
          = w1\<lparr>jsonContext := (jsonContext w1)\<lparr>jsonRaw := c\<rparr>,
               logger := logger w1
                 @ [LogInfo ''mutateResp.PatchedResource'' [(''resource'', LogResource (PatchedResource mr))],
                    LogError err ''failed to update resource in context'']\<rparr>"
    by (simp add: addPatchedResource_def logInfo_def logError_def setBindings_def)
next
  assume a: "EvaluateList ext (List fe) (jsonRaw (jsonContext w)) = Inr els
        \<and> mutateElements ext r n res fe els w = (mr, w1) \<and> Status mr \<noteq> RuleStatusError"
  then have "Status mr \<noteq> RuleStatusSkip"
    using mutateElements_never_skip [of ext r n res fe els w] by simp
  with a show "mutateForEach_loop ext r n (fe # rest) res k ap w
          = mutateForEach_loop ext r n rest
              (if length (Patches mr) > 0 then res\<lparr>unstructured := PatchedResource mr\<rparr> else res)
              (k + 1)
              (if length (Patches mr) > 0 then ap @ Patches mr else ap)
              (addPatchedResource ext mr w1)"
    by (simp add: mutateForEach_loop.simps(2))
qed

theorem AddResource_failure_only_logged_witness:
  "AddResource sampleExternals [] None = (Some ''no object'', [])
   \<and> EvaluateList sampleExternals (List (plainForEach ''empty'' JNull)) [] = Inr []
   \<and> mutateElements sampleExternals sampleRule 0
        (sampleResource\<lparr>unstructured := emptyUnstructured\<rparr>) (plainForEach ''empty'' JNull) []
        sampleWorld
     = (NewResponse RuleStatusPass emptyUnstructured [] [], sampleWorld)
   \<and> mutateForEach sampleExternals
        \<lparr>rule = sampleRule, foreach = [plainForEach ''empty'' JNull],
           resource = sampleResource\<lparr>unstructured := emptyUnstructured\<rparr>, nesting = 0\<rparr>
        sampleWorld
     = (NewResponse RuleStatusPass emptyUnstructured [] ''1 elements processed'',
        \<lparr>jsonContext = \<lparr>jsonRaw = [], jsonRawCheckpoints = []\<rparr>,
           logger = [LogInfo ''mutateResp.PatchedResource'' [(''resource'', LogResource emptyUnstructured)],
                     LogError ''no object'' ''failed to update resource in context'']\<rparr>)
   \<and> fst (mutateForEach (ignoreAddResourceError sampleExternals)
        \<lparr>rule = sampleRule, foreach = [plainForEach ''empty'' JNull],
           resource = sampleResource\<lparr>unstructured := emptyUnstructured\<rparr>, nesting = 0\<rparr>
        sampleWorld)
     = NewResponse RuleStatusPass emptyUnstructured [] ''1 elements processed''"
  using AddResource_failure_only_logged [of sampleExternals
      "\<lparr>rule = sampleRule, foreach = [plainForEach ''empty'' JNull],
           resource = sampleResource\<lparr>unstructured := emptyUnstructured\<rparr>, nesting = 0\<rparr>"
      sampleWorld sampleWorld "NewResponse RuleStatusPass emptyUnstructured [] []" "''no object''" "[]"
      "plainForEach ''empty'' JNull" "[]" sampleRule 0
      "sampleResource\<lparr>unstructured := emptyUnstructured\<rparr>" "[]" 0 "[]"]
  by (simp add: run_mutator run_sample)

end
